theory Spec2Isabelle
  imports Complex_Main
begin

section \<open>Python values, errors and indexing\<close>

text \<open>
  The repository is Python. Its numbers are modelled as follows: indices, counts and
  identifiers are \<open>int\<close>/\<open>nat\<close>; task lengths, speeds, cost rates, times, costs,
  fitness values and rates are \<open>real\<close>. The arithmetic of \<open>simulate\<close> and of the fitness
  formula is read over exact reals: a statement about it is a statement about the
  program where the doubles involved are exact (as on the documented instance) or where
  only the formula, not its rounding, is at issue. Numbers beyond the range of a double
  (possible for Python ints only, where \<open>/\<close> and \<open>*\<close> can raise OverflowError) are
  outside this reading; the theorems that state a normal return of \<open>simulate\<close> or name its
  exception assume the operands in that range (\<open>in_float_range\<close>). The one place where the
  code takes \<open>int()\<close> of a float product, the elite count, is modelled with the rounding
  of doubles (\<open>round_double\<close>, \<open>elite_count\<close>).
  Every exception of the source is a value of \<open>error\<close>; a function that may raise returns
  \<open>error + 'a\<close> with \<open>Inl\<close> for the exception.
\<close>

datatype error =
    IndexError
  | KeyError
  | ZeroDivisionError
  | TypeError
  | AttributeError
  | OverflowError
  | ValueError string

definition bindE :: "error + 'a \<Rightarrow> ('a \<Rightarrow> error + 'b) \<Rightarrow> error + 'b" where
  "bindE m f = (case m of Inl e \<Rightarrow> Inl e | Inr x \<Rightarrow> f x)"

text \<open>
  Subscripts. \<open>py_position n i\<close> is the position that the subscript \<open>i\<close> denotes in a list
  of length \<open>n\<close>: a negative subscript counts from the end, anything else out of range
  raises. \<open>xs[i]\<close> is \<open>py_index\<close>, \<open>xs[i] = v\<close> is \<open>py_store\<close>, \<open>xs[:k]\<close> is \<open>py_take\<close>
  and \<open>xs[k:]\<close> is \<open>py_drop\<close> (slices never raise).
\<close>

definition py_position :: "nat \<Rightarrow> int \<Rightarrow> error + nat" where
  "py_position n i =
     (if 0 \<le> i \<and> i < int n then Inr (nat i)
      else if i < 0 \<and> - int n \<le> i then Inr (nat (int n + i))
      else Inl IndexError)"

definition py_index :: "'a list \<Rightarrow> int \<Rightarrow> error + 'a" where
  "py_index xs i = bindE (py_position (length xs) i) (\<lambda>j. Inr (xs ! j))"

definition py_store :: "'a list \<Rightarrow> int \<Rightarrow> 'a \<Rightarrow> error + 'a list" where
  "py_store xs i v = bindE (py_position (length xs) i) (\<lambda>j. Inr (xs[j := v]))"

definition py_slice_bound :: "nat \<Rightarrow> int \<Rightarrow> nat" where
  "py_slice_bound n k = (if k < 0 then nat (int n + k) else nat k)"

definition py_take :: "int \<Rightarrow> 'a list \<Rightarrow> 'a list" where
  "py_take k xs = take (py_slice_bound (length xs) k) xs"

definition py_drop :: "int \<Rightarrow> 'a list \<Rightarrow> 'a list" where
  "py_drop k xs = drop (py_slice_bound (length xs) k) xs"

text \<open>\<open>int(x)\<close> on a float truncates towards zero.\<close>

definition py_int :: "real \<Rightarrow> int" where
  "py_int x = (if 0 \<le> x then \<lfloor>x\<rfloor> else \<lceil>x\<rceil>)"

text \<open>
  Doubles. \<open>round_double x\<close> is the double nearest to \<open>x\<close> (IEEE 754 binary64: round to
  nearest, ties to even, subnormals below \<open>2 ^ - 1022\<close>); a magnitude of \<open>2 ^ 1024\<close> or
  more stands for an infinity. \<open>float_max\<close> is the largest finite double.
\<close>

definition round_half_even :: "real \<Rightarrow> int" where
  "round_half_even y =
     (if y - of_int \<lfloor>y\<rfloor> < 1 / 2 then \<lfloor>y\<rfloor>
      else if 1 / 2 < y - of_int \<lfloor>y\<rfloor> then \<lfloor>y\<rfloor> + 1
      else if even \<lfloor>y\<rfloor> then \<lfloor>y\<rfloor> else \<lfloor>y\<rfloor> + 1)"

definition double_ulp :: "real \<Rightarrow> real" where
  "double_ulp x = 2 powi (max \<lfloor>log 2 \<bar>x\<bar>\<rfloor> (- 1022) - 52)"

definition round_double :: "real \<Rightarrow> real" where
  "round_double x =
     (if x = 0 then 0 else of_int (round_half_even (x / double_ulp x)) * double_ulp x)"

definition float_max :: real where
  "float_max = 2 ^ 1024 - 2 ^ 971"

text \<open>
  \<open>int(size * rate)\<close> for an int \<open>size\<close> and a float \<open>rate\<close>: the int is converted to a
  double (OverflowError when it is too large), the product is rounded to a double, and
  \<open>int()\<close> truncates it (OverflowError on an infinity). A rate that is not a double
  stands for the double nearest to it.
\<close>

definition elite_count :: "int \<Rightarrow> real \<Rightarrow> error + int" where
  "elite_count n rate =
     (if 2 ^ 1024 \<le> \<bar>round_double (real_of_int n)\<bar> then Inl OverflowError
      else
        (let product = round_double (round_double (real_of_int n) * round_double rate)
         in if 2 ^ 1024 \<le> \<bar>product\<bar> then Inl OverflowError else Inr (py_int product)))"

text \<open>\<open>a / b\<close> on floats: raises on a zero divisor.\<close>

definition py_div :: "real \<Rightarrow> real \<Rightarrow> error + real" where
  "py_div a b = (if b = 0 then Inl ZeroDivisionError else Inr (a / b))"

section \<open>cloud_environment.py\<close>

record Task =
  task_id :: int
  task_length :: real

record Resource =
  resource_id :: int
  speed :: real
  cost :: real

record SimResult =
  total_time :: real
  total_cost :: real

text \<open>
  \<open>{task.id: idx for idx, task in enumerate(tasks)}\<close>: a later task with the same id
  overwrites the entry of an earlier one.
\<close>

fun index_tasks :: "Task list \<Rightarrow> nat \<Rightarrow> (int \<rightharpoonup> nat) \<Rightarrow> (int \<rightharpoonup> nat)" where
  "index_tasks [] idx m = m"
| "index_tasks (task # rest) idx m = index_tasks rest (Suc idx) (m(task_id task \<mapsto> idx))"

definition task_id_to_index :: "Task list \<Rightarrow> (int \<rightharpoonup> nat)" where
  "task_id_to_index tasks = index_tasks tasks 0 Map.empty"

text \<open>The body of the \<open>for task in tasks\<close> loop of \<open>simulate\<close>, for one task.\<close>

definition simulate_step ::
  "(int \<rightharpoonup> nat) \<Rightarrow> Resource list \<Rightarrow> int list \<Rightarrow> Task \<Rightarrow> SimResult \<Rightarrow> error + SimResult" where
  "simulate_step index resources assignment task acc =
     bindE (case index (task_id task) of None \<Rightarrow> Inl KeyError | Some i \<Rightarrow> Inr i) (\<lambda>task_index.
     bindE (py_index assignment (int task_index)) (\<lambda>a.
     bindE (py_index resources a) (\<lambda>resource.
     bindE (py_div (task_length task) (speed resource)) (\<lambda>execution_time.
       let execution_cost = execution_time * cost resource
       in Inr \<lparr>total_time = total_time acc + execution_time,
               total_cost = total_cost acc + execution_cost\<rparr>))))"

fun simulate_loop ::
  "(int \<rightharpoonup> nat) \<Rightarrow> Resource list \<Rightarrow> int list \<Rightarrow> Task list \<Rightarrow> SimResult \<Rightarrow> error + SimResult" where
  "simulate_loop index resources assignment [] acc = Inr acc"
| "simulate_loop index resources assignment (task # rest) acc =
     (case simulate_step index resources assignment task acc of
        Inl e \<Rightarrow> Inl e
      | Inr acc' \<Rightarrow> simulate_loop index resources assignment rest acc')"

definition simulate :: "Task list \<Rightarrow> Resource list \<Rightarrow> int list \<Rightarrow> error + SimResult" where
  "simulate tasks resources assignment =
     simulate_loop (task_id_to_index tasks) resources assignment tasks
       \<lparr>total_time = 0, total_cost = 0\<rparr>"

section \<open>The random source\<close>

text \<open>
  The code draws from Python's module \<open>random\<close>. A random stream is an infinite sequence
  of raw draws (natural numbers); a computation that draws takes the stream and returns
  its result with the rest of the stream, or an exception. Each function of the module is
  modelled by its documented contract: \<open>random()\<close> is a float in [0, 1) with 53 bits,
  \<open>randint(a, b)\<close> is an integer in [a, b] and raises ValueError on an empty range,
  \<open>choice\<close> raises IndexError on an empty sequence, and \<open>sample(xs, k)\<close> picks \<open>k\<close>
  elements at distinct positions (its pool algorithm) and raises ValueError unless
  \<open>0 \<le> k \<le> len(xs)\<close>. Quantifying over all streams covers every outcome of every draw.
\<close>

type_synonym rng = "nat \<Rightarrow> nat"

type_synonym 'a rand = "rng \<Rightarrow> error + ('a \<times> rng)"

definition returnR :: "'a \<Rightarrow> 'a rand" where
  "returnR x g = Inr (x, g)"

definition raiseR :: "error \<Rightarrow> 'a rand" where
  "raiseR e g = Inl e"

definition bindR :: "'a rand \<Rightarrow> ('a \<Rightarrow> 'b rand) \<Rightarrow> 'b rand" where
  "bindR m f g = (case m g of Inl e \<Rightarrow> Inl e | Inr (x, g') \<Rightarrow> f x g')"

definition liftE :: "error + 'a \<Rightarrow> 'a rand" where
  "liftE r g = (case r of Inl e \<Rightarrow> Inl e | Inr x \<Rightarrow> Inr (x, g))"

definition random_random :: "real rand" where
  "random_random g = Inr (real (g 0 mod 2 ^ 53) / 2 ^ 53, \<lambda>i. g (Suc i))"

definition randbelow :: "nat \<Rightarrow> nat rand" where
  "randbelow n g = Inr (g 0 mod n, \<lambda>i. g (Suc i))"

definition randint :: "int \<Rightarrow> int \<Rightarrow> int rand" where
  "randint a b =
     (if b < a then raiseR (ValueError ''empty range for randrange()'')
      else bindR (randbelow (nat (b - a + 1))) (\<lambda>k. returnR (a + int k)))"

definition choice :: "'a list \<Rightarrow> 'a rand" where
  "choice xs =
     (if xs = [] then raiseR IndexError
      else bindR (randbelow (length xs)) (\<lambda>k. returnR (xs ! k)))"

fun sample_loop :: "'a list \<Rightarrow> nat \<Rightarrow> 'a list rand" where
  "sample_loop pool 0 = returnR []"
| "sample_loop pool (Suc k) =
     bindR (randbelow (length pool)) (\<lambda>j.
     bindR (sample_loop (butlast (pool[j := last pool])) k) (\<lambda>rest.
       returnR (pool ! j # rest)))"

definition sample :: "'a list \<Rightarrow> int \<Rightarrow> 'a list rand" where
  "sample xs k =
     (if k < 0 \<or> int (length xs) < k
      then raiseR (ValueError ''Sample larger than population or is negative'')
      else sample_loop xs (nat k))"

section \<open>cultural_algorithm.py: Individual\<close>

text \<open>
  Objects are modelled by their values: \<open>copy.deepcopy\<close> is the identity, and a method
  that mutates its receiver returns the new value. (Every Individual the code mutates is
  a fresh object or a deep copy, so no other object observes the mutation.)
\<close>

record Individual =
  assignment :: "int list"
  ind_tasks :: "Task list"
  ind_resources :: "Resource list"
  fitness :: "real option"
  fitness_score :: "(real \<times> real) option"

definition Individual_init :: "int list \<Rightarrow> Task list \<Rightarrow> Resource list \<Rightarrow> Individual" where
  "Individual_init a ts rs =
     \<lparr>assignment = a, ind_tasks = ts, ind_resources = rs, fitness = None, fitness_score = None\<rparr>"

text \<open>
  The fitness formula of \<open>evaluate_fitness\<close>, after \<open>simulate\<close> returned the pair. The
  \<open>else\<close> branch raises \<open>ValueError(f"Unknown objective: {objective}")\<close>.
\<close>

definition fitness_of :: "string \<Rightarrow> real \<Rightarrow> real \<Rightarrow> error + real" where
  "fitness_of objective t c =
     (if objective = ''cost'' then py_div 1 (1 + c)
      else if objective = ''time'' then py_div 1 (1 + t)
      else if objective = ''weighted'' then
        (let normalized_time = t / 1000;
             normalized_cost = c / 10000
         in py_div 1 (1 + 0.4 * normalized_time + 0.6 * normalized_cost))
      else Inl (ValueError (''Unknown objective: '' @ objective)))"

definition evaluate_fitness :: "Individual \<Rightarrow> string \<Rightarrow> error + Individual" where
  "evaluate_fitness self objective =
     bindE (simulate (ind_tasks self) (ind_resources self) (assignment self)) (\<lambda>result.
     bindE (fitness_of objective (total_time result) (total_cost result)) (\<lambda>f.
       Inr (self\<lparr>fitness_score := Some (total_time result, total_cost result),
                 fitness := Some f\<rparr>)))"

section \<open>cultural_algorithm.py: BeliefSpace\<close>

text \<open>\<open>best_fitness\<close> starts as \<open>float('-inf')\<close>.\<close>

datatype pyfloat = NegInf | Fin real

fun float_less :: "pyfloat \<Rightarrow> real \<Rightarrow> bool" where
  "float_less NegInf f = True"
| "float_less (Fin b) f = (b < f)"

record NormativeRange =
  lower :: int
  upper :: int
  preferred :: "int list"

record DomainStats =
  avg_fitness :: real
  fitness_variance :: real
  resource_usage :: "nat list"

record BeliefSpace =
  num_tasks :: nat
  num_resources :: nat
  bs_best_individual :: "Individual option"
  best_fitness :: pyfloat
  normative_ranges :: "NormativeRange list"
  domain_stats :: DomainStats

definition BeliefSpace_init :: "nat \<Rightarrow> nat \<Rightarrow> BeliefSpace" where
  "BeliefSpace_init n_tasks n_resources =
     \<lparr>num_tasks = n_tasks,
      num_resources = n_resources,
      bs_best_individual = None,
      best_fitness = NegInf,
      normative_ranges =
        replicate n_tasks
          \<lparr>lower = 0, upper = int n_resources - 1, preferred = map int [0..<n_resources]\<rparr>,
      domain_stats =
        \<lparr>avg_fitness = 0, fitness_variance = 0, resource_usage = replicate n_resources 0\<rparr>\<rparr>"

subsection \<open>update\<close>

text \<open>
  The first loop of \<open>update\<close>: \<open>individual.fitness > self.best_fitness\<close> raises TypeError
  on an unevaluated individual (\<open>fitness\<close> is \<open>None\<close>).
\<close>

fun update_situational :: "Individual list \<Rightarrow> BeliefSpace \<Rightarrow> error + BeliefSpace" where
  "update_situational [] self = Inr self"
| "update_situational (individual # rest) self =
     (case fitness individual of
        None \<Rightarrow> Inl TypeError
      | Some f \<Rightarrow>
          update_situational rest
            (if float_less (best_fitness self) f
             then self\<lparr>best_fitness := Fin f, bs_best_individual := Some individual\<rparr>
             else self))"

text \<open>\<open>counts[i] += 1\<close>.\<close>

definition increment :: "nat list \<Rightarrow> int \<Rightarrow> error + nat list" where
  "increment counts i = bindE (py_index counts i) (\<lambda>c. py_store counts i (c + 1))"

text \<open>The inner loop over the accepted individuals, for one task position.\<close>

fun count_resources :: "Individual list \<Rightarrow> nat \<Rightarrow> nat list \<Rightarrow> error + nat list" where
  "count_resources [] task_idx resource_counts = Inr resource_counts"
| "count_resources (individual # rest) task_idx resource_counts =
     bindE (py_index (assignment individual) (int task_idx)) (\<lambda>resource_idx.
     bindE (increment resource_counts resource_idx) (\<lambda>resource_counts'.
       count_resources rest task_idx resource_counts'))"

text \<open>
  \<open>max(resource_counts)\<close> raises ValueError on an empty list; the preferred resources are
  those counted at least half as often as the most frequent one.
\<close>

definition preferred_of :: "nat \<Rightarrow> nat list \<Rightarrow> error + int list" where
  "preferred_of n_resources resource_counts =
     (if resource_counts = [] then Inl (ValueError ''max() arg is an empty sequence'')
      else
        (let max_count = Max (set resource_counts) in
         if max_count > 0
         then Inr (map (\<lambda>p. int (fst p))
                    (filter (\<lambda>p. real (snd p) \<ge> real max_count * 0.5)
                       (enumerate 0 resource_counts)))
         else Inr (map int [0..<n_resources])))"

fun update_normative :: "Individual list \<Rightarrow> nat list \<Rightarrow> BeliefSpace \<Rightarrow> error + BeliefSpace" where
  "update_normative accepted [] self = Inr self"
| "update_normative accepted (task_idx # rest) self =
     bindE (count_resources accepted task_idx (replicate (num_resources self) 0))
       (\<lambda>resource_counts.
     bindE (preferred_of (num_resources self) resource_counts) (\<lambda>p.
     bindE (py_index (normative_ranges self) (int task_idx)) (\<lambda>r.
     bindE (py_store (normative_ranges self) (int task_idx) (r\<lparr>preferred := p\<rparr>)) (\<lambda>ranges.
       update_normative accepted rest (self\<lparr>normative_ranges := ranges\<rparr>)))))"

text \<open>\<open>[ind.fitness for ind in population]\<close>, summed: TypeError on a \<open>None\<close>.\<close>

fun fitnesses :: "Individual list \<Rightarrow> error + real list" where
  "fitnesses [] = Inr []"
| "fitnesses (ind # rest) =
     (case fitness ind of
        None \<Rightarrow> Inl TypeError
      | Some f \<Rightarrow> bindE (fitnesses rest) (\<lambda>fs. Inr (f # fs)))"

fun count_usage :: "int list \<Rightarrow> nat list \<Rightarrow> error + nat list" where
  "count_usage [] usage = Inr usage"
| "count_usage (resource_idx # rest) usage =
     bindE (increment usage resource_idx) (\<lambda>usage'. count_usage rest usage')"

fun count_usage_all :: "Individual list \<Rightarrow> nat list \<Rightarrow> error + nat list" where
  "count_usage_all [] usage = Inr usage"
| "count_usage_all (individual # rest) usage =
     bindE (count_usage (assignment individual) usage) (\<lambda>usage'. count_usage_all rest usage')"

definition update_domain :: "Individual list \<Rightarrow> BeliefSpace \<Rightarrow> error + BeliefSpace" where
  "update_domain population self =
     (if population = [] then Inr self
      else
        bindE (fitnesses population) (\<lambda>fs.
          let avg = sum_list fs / real (length fs);
              variance = sum_list (map (\<lambda>f. (f - avg) ^ 2) fs) / real (length fs)
          in bindE (count_usage_all population (replicate (num_resources self) 0)) (\<lambda>usage.
               Inr (self\<lparr>domain_stats :=
                      \<lparr>avg_fitness = avg, fitness_variance = variance,
                       resource_usage = usage\<rparr>\<rparr>))))"

definition BeliefSpace_update ::
  "BeliefSpace \<Rightarrow> Individual list \<Rightarrow> Individual list \<Rightarrow> error + BeliefSpace" where
  "BeliefSpace_update self population accepted =
     (if accepted = [] then Inr self
      else
        bindE (update_situational accepted self) (\<lambda>self1.
        bindE (update_normative accepted [0..<num_tasks self1] self1) (\<lambda>self2.
          update_domain population self2)))"

subsection \<open>influence\<close>

text \<open>\<open>for pos in positions: individual.assignment[pos] = self.best_individual.assignment[pos]\<close>.\<close>

fun copy_genes :: "int list \<Rightarrow> Individual \<Rightarrow> Individual \<Rightarrow> error + Individual" where
  "copy_genes [] best individual = Inr individual"
| "copy_genes (pos # rest) best individual =
     bindE (py_index (assignment best) pos) (\<lambda>v.
     bindE (py_store (assignment individual) pos v) (\<lambda>a.
       copy_genes rest best (individual\<lparr>assignment := a\<rparr>)))"

text \<open>
  The situational step. \<open>self.best_individual is not None and random.random() < 0.2\<close>
  draws only when a best individual exists.
\<close>

definition situational_influence :: "BeliefSpace \<Rightarrow> Individual \<Rightarrow> Individual rand" where
  "situational_influence self individual =
     (case bs_best_individual self of
        None \<Rightarrow> returnR individual
      | Some best \<Rightarrow>
          bindR random_random (\<lambda>u.
            if u < 0.2 then
              bindR (randint 1 (max 1 (int (length (assignment individual)) div 3)))
                (\<lambda>num_genes.
              bindR (sample (map int [0..<length (assignment individual)]) num_genes)
                (\<lambda>positions.
                liftE (copy_genes positions best individual)))
            else returnR individual))"

fun normative_influence :: "BeliefSpace \<Rightarrow> nat list \<Rightarrow> Individual \<Rightarrow> Individual rand" where
  "normative_influence self [] individual = returnR individual"
| "normative_influence self (task_idx # rest) individual =
     bindR random_random (\<lambda>u.
       if u < 0.3 then
         bindR (liftE (py_index (normative_ranges self) (int task_idx))) (\<lambda>r.
           if preferred r \<noteq> [] then
             bindR (choice (preferred r)) (\<lambda>v.
             bindR (liftE (py_store (assignment individual) (int task_idx) v)) (\<lambda>a.
               normative_influence self rest (individual\<lparr>assignment := a\<rparr>)))
           else normative_influence self rest individual)
       else normative_influence self rest individual)"

definition influence :: "BeliefSpace \<Rightarrow> Individual \<Rightarrow> real \<Rightarrow> Individual rand" where
  "influence self individual rate =
     bindR random_random (\<lambda>u.
       if u > rate then returnR individual
       else
         bindR (situational_influence self individual) (\<lambda>individual1.
           normative_influence self [0..<length (assignment individual1)] individual1))"

section \<open>cultural_algorithm.py: CulturalAlgorithm\<close>

record CulturalAlgorithm =
  tasks :: "Task list"
  resources :: "Resource list"
  population_size :: int
  mutation_rate :: real
  crossover_rate :: real
  elitism_count :: int
  objective :: string
  max_generations :: int
  acceptance_rate :: real
  influence_rate :: real
  population :: "Individual list"
  generation :: int
  best_fitness_history :: "real list"
  avg_fitness_history :: "real list"
  best_individual :: "Individual option"
  belief_space :: BeliefSpace

text \<open>
  \<open>__init__\<close> stores its arguments and creates the belief space. It has no \<open>raise\<close>; the
  result type is a sum only so that a failing construction can be stated at all.
\<close>

definition CulturalAlgorithm_init ::
  "Task list \<Rightarrow> Resource list \<Rightarrow> int \<Rightarrow> real \<Rightarrow> real \<Rightarrow> int \<Rightarrow> string \<Rightarrow> int \<Rightarrow> real \<Rightarrow> real
   \<Rightarrow> error + CulturalAlgorithm" where
  "CulturalAlgorithm_init ts rs pop_size mut_rate cross_rate elit obj max_gen acc_rate infl_rate =
     Inr \<lparr>tasks = ts,
          resources = rs,
          population_size = pop_size,
          mutation_rate = mut_rate,
          crossover_rate = cross_rate,
          elitism_count = elit,
          objective = obj,
          max_generations = max_gen,
          acceptance_rate = acc_rate,
          influence_rate = infl_rate,
          population = [],
          generation = 0,
          best_fitness_history = [],
          avg_fitness_history = [],
          best_individual = None,
          belief_space = BeliefSpace_init (length ts) (length rs)\<rparr>"

subsection \<open>Sorting and the maximum by fitness\<close>

text \<open>
  \<open>sort(key=lambda x: x.fitness, reverse=True)\<close> is a stable descending sort, and
  \<open>max(xs, key=lambda x: x.fitness)\<close> returns the first maximal element. Comparing keys
  raises TypeError when one of them is \<open>None\<close>; a list of one element is never compared.
\<close>

definition fit :: "Individual \<Rightarrow> real" where
  "fit x = (case fitness x of Some f \<Rightarrow> f | None \<Rightarrow> 0)"

definition comparable :: "Individual list \<Rightarrow> bool" where
  "comparable xs = (length xs \<le> 1 \<or> list_all (\<lambda>x. fitness x \<noteq> None) xs)"

definition sort_by_fitness :: "Individual list \<Rightarrow> error + Individual list" where
  "sort_by_fitness xs =
     (if comparable xs then Inr (sort_key (\<lambda>x. - fit x) xs) else Inl TypeError)"

definition max_by_fitness :: "Individual list \<Rightarrow> error + Individual" where
  "max_by_fitness xs =
     (case xs of
        [] \<Rightarrow> Inl (ValueError ''max() arg is an empty sequence'')
      | x # rest \<Rightarrow>
          if comparable xs
          then Inr (fold (\<lambda>y best. if fit best < fit y then y else best) rest x)
          else Inl TypeError)"

subsection \<open>initialize_population\<close>

text \<open>\<open>[random.randint(0, hi) for _ in range(n)]\<close>.\<close>

fun random_assignment :: "nat \<Rightarrow> int \<Rightarrow> int list rand" where
  "random_assignment 0 hi = returnR []"
| "random_assignment (Suc n) hi =
     bindR (randint 0 hi) (\<lambda>a.
     bindR (random_assignment n hi) (\<lambda>rest.
       returnR (a # rest)))"

fun random_individuals :: "CulturalAlgorithm \<Rightarrow> nat \<Rightarrow> Individual list rand" where
  "random_individuals self 0 = returnR []"
| "random_individuals self (Suc n) =
     bindR (random_assignment (length (tasks self)) (int (length (resources self)) - 1))
       (\<lambda>a.
     bindR (liftE (evaluate_fitness (Individual_init a (tasks self) (resources self))
                     (objective self))) (\<lambda>individual.
     bindR (random_individuals self n) (\<lambda>rest.
       returnR (individual # rest))))"

definition initialize_population :: "CulturalAlgorithm \<Rightarrow> CulturalAlgorithm rand" where
  "initialize_population self =
     bindR (random_individuals self (nat (population_size self))) (\<lambda>created.
     bindR (liftE (sort_by_fitness created)) (\<lambda>pop.
     bindR (liftE (py_index pop 0)) (\<lambda>best.
     bindR (liftE (elite_count (population_size self) (acceptance_rate self))) (\<lambda>count.
     bindR (liftE (BeliefSpace_update (belief_space self) pop (py_take count pop))) (\<lambda>bs.
       returnR (self\<lparr>population := pop, best_individual := Some best,
                    belief_space := bs\<rparr>))))))"

subsection \<open>selection, crossover, mutate\<close>

definition selection :: "CulturalAlgorithm \<Rightarrow> (Individual \<times> Individual) rand" where
  "selection self =
     (let tournament_size = 3 in
      bindR (sample (population self) (min tournament_size (int (length (population self)))))
        (\<lambda>tournament1.
      bindR (sample (population self) (min tournament_size (int (length (population self)))))
        (\<lambda>tournament2.
      bindR (liftE (max_by_fitness tournament1)) (\<lambda>parent1.
      bindR (liftE (max_by_fitness tournament2)) (\<lambda>parent2.
        returnR (parent1, parent2))))))"

definition crossover ::
  "CulturalAlgorithm \<Rightarrow> Individual \<Rightarrow> Individual \<Rightarrow> (Individual \<times> Individual) rand" where
  "crossover self parent1 parent2 =
     bindR random_random (\<lambda>u.
       if u > crossover_rate self then returnR (parent1, parent2)
       else
         bindR (randint 1 (int (length (tasks self)) - 1)) (\<lambda>point.
           let child1_assignment =
                 py_take point (assignment parent1) @ py_drop point (assignment parent2);
               child2_assignment =
                 py_take point (assignment parent2) @ py_drop point (assignment parent1)
           in returnR (Individual_init child1_assignment (tasks self) (resources self),
                       Individual_init child2_assignment (tasks self) (resources self))))"

fun mutate_loop :: "CulturalAlgorithm \<Rightarrow> nat \<Rightarrow> Individual \<Rightarrow> Individual rand" where
  "mutate_loop self 0 individual = returnR individual"
| "mutate_loop self (Suc n) individual =
     bindR (randint 0 (int (length (tasks self)) - 1)) (\<lambda>task_idx.
     bindR (randint 0 (int (length (resources self)) - 1)) (\<lambda>v.
     bindR (liftE (py_store (assignment individual) task_idx v)) (\<lambda>a.
       mutate_loop self n (individual\<lparr>assignment := a\<rparr>))))"

definition mutate :: "CulturalAlgorithm \<Rightarrow> Individual \<Rightarrow> Individual rand" where
  "mutate self individual =
     bindR random_random (\<lambda>u.
       if u > mutation_rate self then returnR individual
       else
         bindR (randint 1 (max 1 (int (length (tasks self)) div 4))) (\<lambda>num_mutations.
           mutate_loop self (nat num_mutations) individual))"

subsection \<open>evolve\<close>

text \<open>\<open>for i in range(self.elitism_count): new_population.append(deepcopy(self.population[i]))\<close>.\<close>

fun elites :: "Individual list \<Rightarrow> nat list \<Rightarrow> error + Individual list" where
  "elites pop [] = Inr []"
| "elites pop (i # rest) =
     bindE (py_index pop (int i)) (\<lambda>x.
     bindE (elites pop rest) (\<lambda>xs. Inr (x # xs)))"

text \<open>One pass of the body of the \<open>while\<close> loop, up to the two evaluated children.\<close>

definition make_children :: "CulturalAlgorithm \<Rightarrow> (Individual \<times> Individual) rand" where
  "make_children self =
     bindR (selection self) (\<lambda>parents.
     bindR (crossover self (fst parents) (snd parents)) (\<lambda>children.
     bindR (influence (belief_space self) (fst children) (influence_rate self)) (\<lambda>c1.
     bindR (influence (belief_space self) (snd children) (influence_rate self)) (\<lambda>c2.
     bindR (mutate self c1) (\<lambda>c1'.
     bindR (mutate self c2) (\<lambda>c2'.
     bindR (liftE (evaluate_fitness c1' (objective self))) (\<lambda>child1.
     bindR (liftE (evaluate_fitness c2' (objective self))) (\<lambda>child2.
       returnR (child1, child2)))))))))"

text \<open>
  \<open>new_population.append(child1)\<close>, then \<open>child2\<close> if there is still room.
\<close>

definition append_children ::
  "int \<Rightarrow> Individual list \<Rightarrow> Individual \<times> Individual \<Rightarrow> Individual list" where
  "append_children pop_size new_population children =
     (let with_first = new_population @ [fst children]
      in if int (length with_first) < pop_size then with_first @ [snd children] else with_first)"

function fill_population :: "CulturalAlgorithm \<Rightarrow> Individual list \<Rightarrow> Individual list rand" where
  "fill_population self new_population =
     (if int (length new_population) < population_size self
      then bindR (make_children self) (\<lambda>children.
             fill_population self (append_children (population_size self) new_population children))
      else returnR new_population)"
  by pat_completeness auto
termination
  by (relation "measure (\<lambda>(self, new_population). nat (population_size self - int (length new_population)))")
     (auto simp: append_children_def Let_def)

text \<open>
  \<open>if self.population[0].fitness > self.best_individual.fitness\<close>: IndexError on an empty
  population, AttributeError when \<open>best_individual\<close> is \<open>None\<close>, TypeError on a fitness
  \<open>None\<close>.
\<close>

definition update_best :: "CulturalAlgorithm \<Rightarrow> error + CulturalAlgorithm" where
  "update_best self =
     bindE (py_index (population self) 0) (\<lambda>top.
       case best_individual self of
         None \<Rightarrow> Inl AttributeError
       | Some best \<Rightarrow>
           (case fitness top of
              None \<Rightarrow> Inl TypeError
            | Some f \<Rightarrow>
                (case fitness best of
                   None \<Rightarrow> Inl TypeError
                 | Some b \<Rightarrow>
                     Inr (if b < f then self\<lparr>best_individual := Some top\<rparr> else self))))"

text \<open>
  The statistics at the end of \<open>evolve\<close>. After \<open>update_best\<close> the best individual exists
  and has a fitness, so the first two error branches are never taken there.
\<close>

definition record_statistics :: "CulturalAlgorithm \<Rightarrow> error + CulturalAlgorithm" where
  "record_statistics self =
     (case best_individual self of
        None \<Rightarrow> Inl AttributeError
      | Some best \<Rightarrow>
          (case fitness best of
             None \<Rightarrow> Inl TypeError
           | Some b \<Rightarrow>
               bindE (fitnesses (population self)) (\<lambda>fs.
               bindE (py_div (sum_list fs) (real (length (population self)))) (\<lambda>avg.
                 Inr (self\<lparr>best_fitness_history := best_fitness_history self @ [b],
                           avg_fitness_history := avg_fitness_history self @ [avg],
                           generation := generation self + 1\<rparr>)))))"

definition evolve :: "CulturalAlgorithm \<Rightarrow> CulturalAlgorithm rand" where
  "evolve self =
     bindR (liftE (elites (population self) [0..<nat (elitism_count self)])) (\<lambda>kept.
     bindR (fill_population self kept) (\<lambda>new_population.
     bindR (liftE (sort_by_fitness (py_take (population_size self) new_population))) (\<lambda>pop.
     bindR (liftE (update_best (self\<lparr>population := pop\<rparr>))) (\<lambda>self1.
     bindR (liftE (elite_count (population_size self1) (acceptance_rate self1))) (\<lambda>count.
       let num_accepted = max 1 count;
           accepted = py_take num_accepted (population self1)
       in
     bindR (liftE (BeliefSpace_update (belief_space self1) (population self1) accepted)) (\<lambda>bs.
       liftE (record_statistics (self1\<lparr>belief_space := bs\<rparr>))))))))"

subsection \<open>run\<close>

text \<open>
  \<open>for generation in range(self.max_generations): self.evolve()\<close>, and the returned
  \<open>self.best_individual\<close> together with the final state of the optimizer. The printing
  under \<open>verbose\<close> is not modelled.
\<close>

fun run_loop :: "nat \<Rightarrow> CulturalAlgorithm \<Rightarrow> CulturalAlgorithm rand" where
  "run_loop 0 self = returnR self"
| "run_loop (Suc n) self = bindR (evolve self) (\<lambda>self'. run_loop n self')"

definition run :: "CulturalAlgorithm \<Rightarrow> (Individual option \<times> CulturalAlgorithm) rand" where
  "run self =
     bindR (initialize_population self) (\<lambda>self1.
     bindR (run_loop (nat (max_generations self1)) self1) (\<lambda>self2.
       returnR (best_individual self2, self2)))"

section \<open>The documented example instance\<close>

text \<open>The tasks and resources of the \<open>__main__\<close> block of both modules.\<close>

definition example_tasks :: "Task list" where
  "example_tasks =
     [\<lparr>task_id = 0, task_length = 120\<rparr>, \<lparr>task_id = 1, task_length = 200\<rparr>,
      \<lparr>task_id = 2, task_length = 150\<rparr>]"

definition example_resources :: "Resource list" where
  "example_resources =
     [\<lparr>resource_id = 0, speed = 10, cost = 5\<rparr>, \<lparr>resource_id = 1, speed = 20, cost = 8\<rparr>]"

text \<open>
  The optimizer of the \<open>__main__\<close> block of \<open>cultural_algorithm.py\<close> (all other
  parameters at their defaults), for a given population size and number of generations.
\<close>

definition example_optimizer :: "int \<Rightarrow> int \<Rightarrow> CulturalAlgorithm" where
  "example_optimizer pop_size max_gen =
     \<lparr>tasks = example_tasks, resources = example_resources, population_size = pop_size,
      mutation_rate = 0.1, crossover_rate = 0.8, elitism_count = 2, objective = ''cost'',
      max_generations = max_gen, acceptance_rate = 0.2, influence_rate = 0.3,
      population = [], generation = 0, best_fitness_history = [], avg_fitness_history = [],
      best_individual = None, belief_space = BeliefSpace_init 3 2\<rparr>"

section \<open>Facts about doubles\<close>

lemma floor_log2_binade:
  assumes "2 powi k \<le> \<bar>x\<bar>" "\<bar>x\<bar> < 2 powi (k + 1)"
  shows "\<lfloor>log 2 \<bar>x\<bar>\<rfloor> = k"
proof -
  have "(0 :: real) < 2 powi k"
    by simp
  then have pos: "0 < \<bar>x\<bar>"
    using assms(1) by linarith
  have "(2 :: real) powr real_of_int k = 2 powi k"
    by (rule powr_real_of_int') simp_all
  moreover have "(2 :: real) powr real_of_int (k + 1) = 2 powi (k + 1)"
    by (rule powr_real_of_int') simp_all
  ultimately have "2 powr real_of_int k \<le> \<bar>x\<bar> \<and> \<bar>x\<bar> < 2 powr real_of_int (k + 1)"
    using assms by simp
  then show ?thesis
    using floor_log_eq_powr_iff [OF pos, of 2 k] by simp
qed

text \<open>The double nearest to a number of the binade \<open>[2 ^ k, 2 ^ (k + 1))\<close>.\<close>

lemma round_double_binade:
  assumes "2 powi k \<le> \<bar>x\<bar>" "\<bar>x\<bar> < 2 powi (k + 1)" "- 1022 \<le> k"
  shows "round_double x = of_int (round_half_even (x / 2 powi (k - 52))) * 2 powi (k - 52)"
proof -
  have "(0 :: real) < 2 powi k"
    by simp
  then have "0 < \<bar>x\<bar>"
    using assms(1) by linarith
  then have "x \<noteq> 0"
    by auto
  moreover have "double_ulp x = 2 powi (k - 52)"
    using floor_log2_binade [OF assms(1,2)] assms(3) by (simp add: double_ulp_def)
  ultimately show ?thesis
    by (simp add: round_double_def)
qed

lemma round_half_even_of_int [simp]: "round_half_even (of_int n) = n"
  by (simp add: round_half_even_def)

lemma round_half_even_numeral [simp]: "round_half_even (numeral n) = numeral n"
  using round_half_even_of_int [of "numeral n"] by simp

text \<open>
  Two elite counts: \<open>int(4 * 0.2)\<close> is 0, and \<open>int(3 * (1/3))\<close> is 1, because the product
  of 3 and the double nearest to 1/3 lies halfway between two doubles and rounds to 1.0.
\<close>

lemma round_double_4: "round_double 4 = 4"
proof -
  have "round_double 4 = of_int (round_half_even (4 / 2 powi (2 - 52))) * 2 powi (2 - 52)"
    by (rule round_double_binade) (simp_all add: power_int_minus)
  also have "(4 :: real) / 2 powi (2 - 52) = 4503599627370496"
    by (simp add: power_int_minus)
  finally show ?thesis
    by (simp add: power_int_minus)
qed

lemma round_double_fifth: "round_double (1 / 5) = 7205759403792794 / 2 ^ 55"
proof -
  have "round_double (1 / 5)
      = of_int (round_half_even ((1 / 5) / 2 powi (- 3 - 52))) * 2 powi (- 3 - 52)"
    by (rule round_double_binade) (simp_all add: power_int_minus)
  moreover have "round_half_even ((1 / 5) / 2 powi (- 3 - 52)) = 7205759403792794"
    by (simp add: round_half_even_def power_int_minus)
  ultimately show ?thesis
    by (simp add: power_int_minus)
qed

lemma elite_count_4_fifth: "elite_count 4 (1 / 5) = Inr 0"
proof -
  let ?p = "4 * (7205759403792794 / 2 ^ 55) :: real"
  have "round_double ?p = of_int (round_half_even (?p / 2 powi (- 1 - 52))) * 2 powi (- 1 - 52)"
    by (rule round_double_binade) (simp_all add: power_int_minus)
  moreover have "?p / 2 powi (- 1 - 52) = 7205759403792794"
    by (simp add: power_int_minus)
  ultimately have "round_double ?p = 7205759403792794 / 2 ^ 53"
    by (simp add: power_int_minus)
  then have p: "round_double (4 * round_double (1 / 5)) = 7205759403792794 / 2 ^ 53"
    by (simp only: round_double_fifth)
  have small: "(7205759403792794 / 2 ^ 53 :: real) < 1" "(0 :: real) \<le> 7205759403792794 / 2 ^ 53"
    by simp_all
  then have "py_int (7205759403792794 / 2 ^ 53) = 0"
    unfolding py_int_def by (simp only: if_True floor_eq_iff) simp
  moreover have "\<not> (2 ^ 1024 \<le> \<bar>7205759403792794 / 2 ^ 53 :: real\<bar>)"
    by simp
  moreover have "\<not> (2 ^ 1024 \<le> \<bar>4 :: real\<bar>)"
    by simp
  ultimately show ?thesis
    unfolding elite_count_def Let_def by (simp only: of_int_numeral round_double_4 p if_False)
qed

text \<open>
  The product of 3 and the double nearest to 1/3 lies halfway between two doubles and
  rounds to 1.0, so \<open>int(3 * (1/3))\<close> is 1 although the exact product is below 1.
\<close>

lemma round_double_3: "round_double 3 = 3"
proof -
  have "round_double 3 = of_int (round_half_even (3 / 2 powi (1 - 52))) * 2 powi (1 - 52)"
    by (rule round_double_binade) (simp_all add: power_int_minus)
  also have "(3 :: real) / 2 powi (1 - 52) = 6755399441055744"
    by (simp add: power_int_minus)
  finally show ?thesis
    by (simp add: power_int_minus)
qed

lemma round_double_third: "round_double (1 / 3) = 6004799503160661 / 2 ^ 54"
proof -
  have "round_double (1 / 3)
      = of_int (round_half_even ((1 / 3) / 2 powi (- 2 - 52))) * 2 powi (- 2 - 52)"
    by (rule round_double_binade) (simp_all add: power_int_minus)
  moreover have "round_half_even ((1 / 3) / 2 powi (- 2 - 52)) = 6004799503160661"
    by (simp add: round_half_even_def power_int_minus)
  ultimately show ?thesis
    by (simp add: power_int_minus)
qed

lemma elite_count_3_third: "elite_count 3 (1 / 3) = Inr 1"
proof -
  let ?p = "3 * (6004799503160661 / 2 ^ 54) :: real"
  have "round_double ?p = of_int (round_half_even (?p / 2 powi (- 1 - 52))) * 2 powi (- 1 - 52)"
    by (rule round_double_binade) (simp_all add: power_int_minus)
  moreover have "round_half_even (?p / 2 powi (- 1 - 52)) = 9007199254740992"
    by (simp add: round_half_even_def power_int_minus)
  ultimately have "round_double ?p = 1"
    by (simp add: power_int_minus)
  then have p: "round_double (3 * round_double (1 / 3)) = 1"
    by (simp only: round_double_third)
  have "py_int 1 = 1"
    by (simp add: py_int_def)
  moreover have "\<not> (2 ^ 1024 \<le> \<bar>1 :: real\<bar>)" "\<not> (2 ^ 1024 \<le> \<bar>3 :: real\<bar>)"
    by simp_all
  ultimately show ?thesis
    unfolding elite_count_def Let_def by (simp only: of_int_numeral round_double_3 p if_False)
qed

section \<open>Basic facts\<close>

lemma bindE_Inl [simp]: "bindE (Inl e) f = Inl e"
  by (simp add: bindE_def)

lemma bindE_Inr [simp]: "bindE (Inr x) f = f x"
  by (simp add: bindE_def)

lemma bindE_eq_Inr: "bindE m f = Inr y \<longleftrightarrow> (\<exists>x. m = Inr x \<and> f x = Inr y)"
  by (cases m) simp_all

lemma liftE_simps [simp]: "liftE (Inl e) g = Inl e" "liftE (Inr x) g = Inr (x, g)"
  by (simp_all add: liftE_def)

lemma liftE_eq_Inr: "liftE r g = Inr (x, g') \<longleftrightarrow> r = Inr x \<and> g' = g"
  by (cases r) auto

lemma returnR_eq_Inr: "returnR x g = Inr (y, g') \<longleftrightarrow> y = x \<and> g' = g"
  by (auto simp: returnR_def)

lemma raiseR_eq_Inr [simp]: "raiseR e g \<noteq> Inr r"
  by (simp add: raiseR_def)

lemma bindR_returnR [simp]: "bindR (returnR x) f g = f x g"
  by (simp add: bindR_def returnR_def)

lemma bindR_raiseR [simp]: "bindR (raiseR e) f g = Inl e"
  by (simp add: bindR_def raiseR_def)

lemma bindR_liftE [simp]:
  "bindR (liftE (Inr x)) f g = f x g"
  "bindR (liftE (Inl e)) f g = Inl e"
  by (simp_all add: bindR_def)

lemma bindR_liftE_eq_Inr:
  "bindR (liftE r) f g = Inr y \<longleftrightarrow> (\<exists>x. r = Inr x \<and> f x g = Inr y)"
  by (cases r) simp_all

lemma bindR_eq_Inr:
  "bindR m f g = Inr r \<longleftrightarrow> (\<exists>x g'. m g = Inr (x, g') \<and> f x g' = Inr r)"
  by (cases "m g") (auto simp: bindR_def)

lemma bindR_fails: "(\<And>x g'. isl (f x g')) \<Longrightarrow> isl (bindR m f g)"
  by (cases "m g") (auto simp: bindR_def)

lemma bindR_fails_first: "isl (m g) \<Longrightarrow> isl (bindR m f g)"
  by (cases "m g") (auto simp: bindR_def)

lemmas eval_simulate =
  simulate_def task_id_to_index_def simulate_step_def py_index_def py_position_def py_div_def

lemmas eval_fitness = evaluate_fitness_def fitness_of_def Individual_init_def eval_simulate

lemmas eval_rand = bindR_def returnR_def raiseR_def liftE_def random_random_def randbelow_def

lemma simulate_example_instance:
  "simulate example_tasks example_resources [0, 1, 0] = Inr \<lparr>total_time = 37, total_cost = 215\<rparr>"
  by (simp add: example_tasks_def example_resources_def eval_simulate)

section \<open>Evaluation on concrete inputs\<close>

text \<open>Unrolling equations for the loops, used to evaluate the model on concrete inputs.\<close>

lemma random_assignment_unroll:
  "random_assignment n hi =
     (if n = 0 then returnR []
      else bindR (randint 0 hi) (\<lambda>a.
           bindR (random_assignment (n - 1) hi) (\<lambda>rest. returnR (a # rest))))"
  by (cases n) simp_all

lemma random_individuals_unroll:
  "random_individuals self n =
     (if n = 0 then returnR []
      else
        bindR (random_assignment (length (tasks self)) (int (length (resources self)) - 1))
          (\<lambda>a.
        bindR (liftE (evaluate_fitness (Individual_init a (tasks self) (resources self))
                        (objective self))) (\<lambda>individual.
        bindR (random_individuals self (n - 1)) (\<lambda>rest.
          returnR (individual # rest)))))"
  by (cases n) simp_all

lemmas eval_initialize =
  initialize_population_def random_assignment_unroll random_individuals_unroll randint_def
  sort_by_fitness_def comparable_def fit_def py_take_def py_slice_bound_def py_int_def
  BeliefSpace_update_def eval_fitness eval_rand

lemma initialize_example_optimizer:
  "\<exists>ca' g'. initialize_population (example_optimizer 4 50) (\<lambda>i. i) = Inr (ca', g')
      \<and> map assignment (population ca') = [[1, 0, 1], [1, 0, 1], [0, 1, 0], [0, 1, 0]]
      \<and> map fitness (population ca') = [Some (1 / 209), Some (1 / 209), Some (1 / 216), Some (1 / 216)]"
  by (simp add: example_optimizer_def example_tasks_def example_resources_def eval_initialize
      elite_count_4_fifth
      del: random_assignment.simps random_individuals.simps not_None_eq)

section \<open>Facts about the evaluator\<close>

text \<open>
  What \<open>simulate\<close> computes for one task, without the accumulator: the pair of the
  execution time and the execution cost (a notion of the proofs, not of the source).
\<close>

definition task_run ::
  "(int \<rightharpoonup> nat) \<Rightarrow> Resource list \<Rightarrow> int list \<Rightarrow> Task \<Rightarrow> error + real \<times> real" where
  "task_run index rs asg task =
     bindE (case index (task_id task) of None \<Rightarrow> Inl KeyError | Some i \<Rightarrow> Inr i) (\<lambda>task_index.
     bindE (py_index asg (int task_index)) (\<lambda>a.
     bindE (py_index rs a) (\<lambda>resource.
     bindE (py_div (task_length task) (speed resource)) (\<lambda>execution_time.
       Inr (execution_time, execution_time * cost resource)))))"

lemma simulate_step_task_run:
  "simulate_step index rs asg task acc =
     bindE (task_run index rs asg task) (\<lambda>p.
       Inr \<lparr>total_time = total_time acc + fst p, total_cost = total_cost acc + snd p\<rparr>)"
  by (simp add: simulate_step_def task_run_def bindE_def Let_def split: sum.splits option.splits)

lemma simulate_loop_Cons:
  "simulate_loop index rs asg (task # rest) acc =
     bindE (task_run index rs asg task) (\<lambda>p.
       simulate_loop index rs asg rest
         \<lparr>total_time = total_time acc + fst p, total_cost = total_cost acc + snd p\<rparr>)"
  by (simp add: simulate_step_task_run bindE_def split: sum.splits)

lemma simulate_loop_Inr:
  "simulate_loop index rs asg ts acc = Inr r \<longleftrightarrow>
     (\<exists>ps. map (task_run index rs asg) ts = map Inr ps
        \<and> r = \<lparr>total_time = total_time acc + sum_list (map fst ps),
                total_cost = total_cost acc + sum_list (map snd ps)\<rparr>)"
proof (induction ts arbitrary: acc r)
  case Nil
  then show ?case by auto
next
  case (Cons task rest)
  show ?case
  proof (cases "task_run index rs asg task")
    case (Inl e)
    then show ?thesis
      by (auto simp: simulate_loop_Cons simp del: simulate_loop.simps)
  next
    case (Inr p)
    show ?thesis
    proof
      assume "simulate_loop index rs asg (task # rest) acc = Inr r"
      then obtain ps where ps: "map (task_run index rs asg) rest = map Inr ps"
        and r: "r = \<lparr>total_time = total_time acc + fst p + sum_list (map fst ps),
                       total_cost = total_cost acc + snd p + sum_list (map snd ps)\<rparr>"
        using Inr Cons.IH by (auto simp: simulate_loop_Cons simp del: simulate_loop.simps)
      show "\<exists>ps. map (task_run index rs asg) (task # rest) = map Inr ps
        \<and> r = \<lparr>total_time = total_time acc + sum_list (map fst ps),
                total_cost = total_cost acc + sum_list (map snd ps)\<rparr>"
        using ps r Inr by (intro exI [of _ "p # ps"]) (simp add: add.assoc)
    next
      assume "\<exists>ps. map (task_run index rs asg) (task # rest) = map Inr ps
        \<and> r = \<lparr>total_time = total_time acc + sum_list (map fst ps),
                total_cost = total_cost acc + sum_list (map snd ps)\<rparr>"
      then obtain ps where ps: "map (task_run index rs asg) (task # rest) = map Inr ps"
        and r: "r = \<lparr>total_time = total_time acc + sum_list (map fst ps),
                total_cost = total_cost acc + sum_list (map snd ps)\<rparr>"
        by blast
      from ps obtain ps' where ps': "ps = p # ps'"
        "map (task_run index rs asg) rest = map Inr ps'"
        using Inr by (cases ps) auto
      show "simulate_loop index rs asg (task # rest) acc = Inr r"
        using Inr ps' r Cons.IH
        by (auto simp: simulate_loop_Cons add.assoc simp del: simulate_loop.simps)
    qed
  qed
qed

lemma simulate_loop_Inl:
  "simulate_loop index rs asg ts acc = Inl e \<Longrightarrow> \<exists>t \<in> set ts. task_run index rs asg t = Inl e"
proof (induction ts arbitrary: acc)
  case Nil
  then show ?case by simp
next
  case (Cons task rest)
  then show ?case
    by (cases "task_run index rs asg task")
       (auto simp: simulate_loop_Cons simp del: simulate_loop.simps)
qed

lemma simulate_loop_fails:
  assumes "t \<in> set ts" "isl (task_run index rs asg t)"
  shows "isl (simulate_loop index rs asg ts acc)"
proof (rule ccontr)
  assume "\<not> isl (simulate_loop index rs asg ts acc)"
  then obtain r where "simulate_loop index rs asg ts acc = Inr r"
    by (cases "simulate_loop index rs asg ts acc") auto
  then obtain ps where "map (task_run index rs asg) ts = map Inr ps"
    unfolding simulate_loop_Inr by blast
  then have "\<forall>x \<in> set (map (task_run index rs asg) ts). \<not> isl x"
    by auto
  then show False
    using assms by auto
qed

subsection \<open>The index of task identifiers\<close>

lemma index_tasks_notin:
  "x \<notin> task_id ` set ts \<Longrightarrow> index_tasks ts k m x = m x"
  by (induction ts arbitrary: k m) auto

lemma index_tasks_in:
  "x \<in> task_id ` set ts \<Longrightarrow>
     \<exists>j. index_tasks ts k m x = Some (k + j) \<and> j < length ts \<and> task_id (ts ! j) = x
        \<and> (\<forall>p. j < p \<and> p < length ts \<longrightarrow> task_id (ts ! p) \<noteq> x)"
proof (induction ts arbitrary: k m)
  case Nil
  then show ?case by simp
next
  case (Cons t rest)
  show ?case
  proof (cases "x \<in> task_id ` set rest")
    case True
    from Cons.IH [OF True, of "Suc k" "m(task_id t \<mapsto> k)"]
    obtain j where j: "index_tasks rest (Suc k) (m(task_id t \<mapsto> k)) x = Some (Suc k + j)"
      "j < length rest" "task_id (rest ! j) = x"
      "\<forall>p. j < p \<and> p < length rest \<longrightarrow> task_id (rest ! p) \<noteq> x"
      by blast
    have "\<forall>p. Suc j < p \<and> p < length (t # rest) \<longrightarrow> task_id ((t # rest) ! p) \<noteq> x"
    proof (intro allI impI)
      fix p assume p: "Suc j < p \<and> p < length (t # rest)"
      then obtain q where "p = Suc q" by (cases p) auto
      with p j(4) show "task_id ((t # rest) ! p) \<noteq> x" by auto
    qed
    with j show ?thesis
      by (intro exI [of _ "Suc j"]) simp
  next
    case False
    with Cons.prems have x: "x = task_id t" by auto
    have "\<forall>p. 0 < p \<and> p < length (t # rest) \<longrightarrow> task_id ((t # rest) ! p) \<noteq> x"
    proof (intro allI impI)
      fix p assume p: "0 < p \<and> p < length (t # rest)"
      then obtain q where "p = Suc q" by (cases p) auto
      with p False show "task_id ((t # rest) ! p) \<noteq> x" by auto
    qed
    then show ?thesis
      using False x by (intro exI [of _ 0]) (simp add: index_tasks_notin)
  qed
qed

lemma task_id_to_index_in:
  assumes "i < length ts"
  shows "\<exists>j. task_id_to_index ts (task_id (ts ! i)) = Some j \<and> i \<le> j \<and> j < length ts
           \<and> task_id (ts ! j) = task_id (ts ! i)"
proof -
  have "task_id (ts ! i) \<in> task_id ` set ts"
    using assms by simp
  from index_tasks_in [OF this, of 0 Map.empty]
  obtain j where j: "task_id_to_index ts (task_id (ts ! i)) = Some j" "j < length ts"
    "task_id (ts ! j) = task_id (ts ! i)"
    "\<forall>p. j < p \<and> p < length ts \<longrightarrow> task_id (ts ! p) \<noteq> task_id (ts ! i)"
    by (auto simp: task_id_to_index_def)
  have "i \<le> j"
  proof (rule ccontr)
    assume "\<not> i \<le> j"
    then have "j < i \<and> i < length ts"
      using assms by simp
    with j(4) show False by blast
  qed
  with j show ?thesis by blast
qed

lemma task_id_to_index_distinct:
  assumes "distinct (map task_id ts)" "i < length ts"
  shows "task_id_to_index ts (task_id (ts ! i)) = Some i"
proof -
  obtain j where j: "task_id_to_index ts (task_id (ts ! i)) = Some j" "j < length ts"
    "task_id (ts ! j) = task_id (ts ! i)"
    using task_id_to_index_in [OF assms(2)] by blast
  have "map task_id ts ! j = map task_id ts ! i"
    using j assms(2) by simp
  moreover have "j < length (map task_id ts)" "i < length (map task_id ts)"
    using j(2) assms(2) by simp_all
  ultimately have "j = i"
    using nth_eq_iff_index_eq [OF assms(1)] by blast
  with j show ?thesis by simp
qed

lemma index_tasks_ids:
  "map task_id ts = map task_id ts' \<Longrightarrow> index_tasks ts k m = index_tasks ts' k m"
proof (induction ts arbitrary: ts' k m)
  case Nil
  then show ?case by simp
next
  case (Cons t rest)
  then obtain t' rest' where ts': "ts' = t' # rest'" "task_id t = task_id t'"
    "map task_id rest = map task_id rest'"
    by (cases ts') auto
  have "index_tasks rest (Suc k) (m(task_id t \<mapsto> k))
      = index_tasks rest' (Suc k) (m(task_id t \<mapsto> k))"
    using ts'(3) by (rule Cons.IH)
  then show ?case
    using ts'(1,2) by simp
qed

section \<open>Facts about the random source, stores and slices\<close>

lemma random_random_range:
  assumes "random_random g = Inr (u, g')"
  shows "0 \<le> u \<and> u < 1"
proof -
  have "g 0 mod 2 ^ 53 < (2 ^ 53 :: nat)"
    by simp
  then have "real (g 0 mod 2 ^ 53) < 2 ^ 53"
    by (metis of_nat_less_iff of_nat_numeral of_nat_power)
  then show ?thesis
    using assms by (auto simp: random_random_def)
qed

lemma randint_range:
  assumes "randint a b g = Inr (k, g')"
  shows "a \<le> k \<and> k \<le> b"
proof -
  have ab: "a \<le> b"
    using assms by (auto simp: randint_def split: if_splits)
  then have "g 0 mod nat (b - a + 1) < nat (b - a + 1)"
    by simp
  then have "int (g 0 mod nat (b - a + 1)) \<le> b - a"
    using ab by linarith
  then show ?thesis
    using assms ab by (auto simp: randint_def bindR_def randbelow_def returnR_def)
qed

lemma randint_empty_range:
  "b < a \<Longrightarrow> randint a b g = Inl (ValueError ''empty range for randrange()'')"
  by (simp add: randint_def raiseR_def)

lemma randint_defined: "a \<le> b \<Longrightarrow> \<exists>k g'. randint a b g = Inr (k, g')"
  by (simp add: randint_def bindR_def randbelow_def returnR_def)

lemma choice_in_set:
  assumes "choice xs g = Inr (x, g')"
  shows "x \<in> set xs"
proof -
  have "xs \<noteq> []"
    using assms by (auto simp: choice_def)
  then have "g 0 mod length xs < length xs"
    by simp
  then show ?thesis
    using assms \<open>xs \<noteq> []\<close> by (auto simp: choice_def bindR_def randbelow_def returnR_def)
qed

lemma sample_loop_subset:
  assumes "k \<le> length pool" "sample_loop pool k g = Inr (ys, g')"
  shows "set ys \<subseteq> set pool \<and> length ys = k"
  using assms
proof (induction k arbitrary: pool g ys)
  case 0
  then show ?case by (simp add: returnR_def)
next
  case (Suc k)
  let ?j = "g 0 mod length pool"
  let ?pool' = "butlast (pool[?j := last pool])"
  have ne: "pool \<noteq> []"
    using Suc.prems(1) by auto
  then have j: "?j < length pool"
    by simp
  from Suc.prems(2) obtain rest where rest: "sample_loop ?pool' k (\<lambda>i. g (Suc i)) = Inr (rest, g')"
    and ys: "ys = pool ! ?j # rest"
    by (auto simp: bindR_def randbelow_def returnR_def split: sum.splits)
  have "k \<le> length ?pool'"
    using Suc.prems(1) by simp
  from Suc.IH [OF this rest] have IH: "set rest \<subseteq> set ?pool'" "length rest = k"
    by simp_all
  have "set ?pool' \<subseteq> set (pool[?j := last pool])"
    by (auto dest: in_set_butlastD)
  also have "\<dots> \<subseteq> insert (last pool) (set pool)"
    by (rule set_update_subset_insert)
  also have "\<dots> = set pool"
    using ne by auto
  finally show ?case
    using IH ys j by auto
qed

lemma sample_subset:
  assumes "sample xs k g = Inr (ys, g')"
  shows "set ys \<subseteq> set xs \<and> int (length ys) = k"
proof -
  have k: "0 \<le> k" "k \<le> int (length xs)" and loop: "sample_loop xs (nat k) g = Inr (ys, g')"
    using assms by (auto simp: sample_def split: if_splits)
  have "nat k \<le> length xs"
    using k by simp
  from sample_loop_subset [OF this loop] show ?thesis
    using k by simp
qed

lemma py_store_Inr:
  assumes "py_store xs i v = Inr ys"
  shows "length ys = length xs \<and> set ys \<subseteq> insert v (set xs)"
  using assms
  by (auto simp: py_store_def py_position_def bindE_eq_Inr split: if_splits
      dest: subsetD [OF set_update_subset_insert])

lemma py_take_subset: "set (py_take k xs) \<subseteq> set xs"
  by (auto simp: py_take_def dest: in_set_takeD)

lemma sort_by_fitness_set: "sort_by_fitness xs = Inr ys \<Longrightarrow> set ys = set xs"
  by (auto simp: sort_by_fitness_def split: if_splits)

lemma sort_by_fitness_length: "sort_by_fitness xs = Inr ys \<Longrightarrow> length ys = length xs"
  by (auto simp: sort_by_fitness_def split: if_splits)

lemma fold_max_in_set:
  "fold (\<lambda>y best. if fit best < fit y then y else best) xs x \<in> insert x (set xs)"
  by (induction xs arbitrary: x) (auto split: if_splits)

lemma max_by_fitness_in_set: "max_by_fitness xs = Inr x \<Longrightarrow> x \<in> set xs"
  using fold_max_in_set
  by (auto simp: max_by_fitness_def split: list.splits if_splits)

lemma evaluate_fitness_keeps:
  assumes "evaluate_fitness ind obj = Inr ind'"
  shows "assignment ind' = assignment ind \<and> ind_tasks ind' = ind_tasks ind
    \<and> ind_resources ind' = ind_resources ind \<and> fitness ind' \<noteq> None"
  using assms by (auto simp: evaluate_fitness_def bindE_eq_Inr)

section \<open>The evaluator on the documented instance\<close>

text \<open>
  C1. For the three tasks of lengths 120, 200, 150 and the two resources (speed 10, cost 5)
  and (speed 20, cost 8), \<open>simulate\<close> on the assignment [0, 1, 0] returns total time
  12 + 10 + 15 = 37 and total cost 60 + 80 + 75 = 215.
\<close>

theorem simulate_example:
  "simulate
     [\<lparr>task_id = 0, task_length = 120\<rparr>, \<lparr>task_id = 1, task_length = 200\<rparr>,
      \<lparr>task_id = 2, task_length = 150\<rparr>]
     [\<lparr>resource_id = 0, speed = 10, cost = 5\<rparr>, \<lparr>resource_id = 1, speed = 20, cost = 8\<rparr>]
     [0, 1, 0]
   = Inr \<lparr>total_time = 120 / 10 + 200 / 20 + 150 / 10, total_cost = 12 * 5 + 10 * 8 + 15 * 5\<rparr>
   \<and> (120 / 10 + 200 / 20 + 150 / 10 :: real) = 37 \<and> (12 * 5 + 10 * 8 + 15 * 5 :: real) = 215"
  by (simp add: eval_simulate)

section \<open>Subscripts and failures of the evaluator\<close>

lemma py_index_Inr:
  "py_index xs i = Inr x \<longleftrightarrow>
     (0 \<le> i \<and> i < int (length xs) \<and> x = xs ! nat i)
     \<or> (i < 0 \<and> - int (length xs) \<le> i \<and> x = xs ! nat (int (length xs) + i))"
  by (auto simp: py_index_def py_position_def)

lemma py_index_Inl:
  "py_index xs i = Inl e \<longleftrightarrow> e = IndexError \<and> (int (length xs) \<le> i \<or> i < - int (length xs))"
  by (auto simp: py_index_def py_position_def)

lemma py_index_in_set: "py_index xs i = Inr x \<Longrightarrow> x \<in> set xs"
  by (auto simp: py_index_Inr)

lemma py_index_nat: "i < length xs \<Longrightarrow> py_index xs (int i) = Inr (xs ! i)"
  by (simp add: py_index_Inr)

lemma task_run_Inl:
  assumes "i < length ts" "task_run (task_id_to_index ts) rs asg (ts ! i) = Inl e"
  shows "e = IndexError \<or> (e = ZeroDivisionError \<and> (\<exists>r \<in> set rs. speed r = 0))"
proof -
  obtain j where j: "task_id_to_index ts (task_id (ts ! i)) = Some j"
    using task_id_to_index_in [OF assms(1)] by blast
  show ?thesis
  proof (cases "py_index asg (int j)")
    case (Inl e1)
    then have "e1 = IndexError"
      by (simp add: py_index_Inl)
    then show ?thesis
      using assms(2) j Inl by (simp add: task_run_def)
  next
    case a: (Inr a)
    show ?thesis
    proof (cases "py_index rs a")
      case (Inl e2)
      then have "e2 = IndexError"
        by (simp add: py_index_Inl)
      then show ?thesis
        using assms(2) j a Inl by (simp add: task_run_def)
    next
      case (Inr r)
      then have "r \<in> set rs" by (rule py_index_in_set)
      then show ?thesis
        using assms(2) j a Inr by (auto simp: task_run_def py_div_def split: if_splits)
    qed
  qed
qed

lemma simulate_Inl:
  assumes "simulate ts rs asg = Inl e"
  shows "e = IndexError \<or> (e = ZeroDivisionError \<and> (\<exists>r \<in> set rs. speed r = 0))"
proof -
  obtain t where "t \<in> set ts" "task_run (task_id_to_index ts) rs asg t = Inl e"
    using assms simulate_loop_Inl unfolding simulate_def by blast
  then obtain i where "i < length ts" "task_run (task_id_to_index ts) rs asg (ts ! i) = Inl e"
    by (auto simp: in_set_conv_nth)
  then show ?thesis by (rule task_run_Inl)
qed

lemma simulate_fails_at:
  assumes "i < length ts" "isl (task_run (task_id_to_index ts) rs asg (ts ! i))"
  shows "simulate ts rs asg = Inl IndexError \<or> simulate ts rs asg = Inl ZeroDivisionError"
proof -
  have "ts ! i \<in> set ts"
    using assms(1) by simp
  then have "isl (simulate ts rs asg)"
    unfolding simulate_def using assms(2) by (rule simulate_loop_fails)
  then obtain e where "simulate ts rs asg = Inl e"
    by (cases "simulate ts rs asg") auto
  then show ?thesis
    using simulate_Inl by blast
qed

lemma simulate_short_assignment:
  assumes "length asg < length ts"
  shows "simulate ts rs asg = Inl IndexError \<or> simulate ts rs asg = Inl ZeroDivisionError"
proof -
  let ?i = "length ts - 1"
  have i: "?i < length ts"
    using assms by simp
  obtain j where j: "task_id_to_index ts (task_id (ts ! ?i)) = Some j" "?i \<le> j" "j < length ts"
    using task_id_to_index_in [OF i] by blast
  then have "int (length asg) \<le> int j"
    using assms by simp
  then have "py_index asg (int j) = Inl IndexError"
    by (simp add: py_index_Inl)
  then have "isl (task_run (task_id_to_index ts) rs asg (ts ! ?i))"
    using j(1) by (simp add: task_run_def)
  with i show ?thesis by (rule simulate_fails_at)
qed

lemma simulate_entry_out_of_range:
  assumes "distinct (map task_id ts)" "i < length ts" "i < length asg"
    and "asg ! i < - int (length rs) \<or> int (length rs) \<le> asg ! i"
  shows "simulate ts rs asg = Inl IndexError \<or> simulate ts rs asg = Inl ZeroDivisionError"
proof -
  have "task_id_to_index ts (task_id (ts ! i)) = Some i"
    using assms(1,2) by (rule task_id_to_index_distinct)
  moreover have "py_index asg (int i) = Inr (asg ! i)"
    using assms(3) by (rule py_index_nat)
  moreover have "py_index rs (asg ! i) = Inl IndexError"
    using assms(4) by (auto simp: py_index_Inl)
  ultimately have "isl (task_run (task_id_to_index ts) rs asg (ts ! i))"
    by (simp add: task_run_def)
  with assms(2) show ?thesis by (rule simulate_fails_at)
qed

lemma simulate_loop_cong:
  assumes "\<And>t. t \<in> set ts \<Longrightarrow> task_run index rs asg t = task_run index' rs' asg' t"
  shows "simulate_loop index rs asg ts acc = simulate_loop index' rs' asg' ts acc"
  using assms
proof (induction ts arbitrary: acc)
  case Nil
  then show ?case by simp
next
  case (Cons t rest)
  then show ?case
    by (simp add: simulate_loop_Cons del: simulate_loop.simps)
qed

lemma simulate_ignores_extra_entries:
  assumes "length ts \<le> length asg"
  shows "simulate ts rs asg = simulate ts rs (take (length ts) asg)"
  unfolding simulate_def
proof (rule simulate_loop_cong)
  fix t assume "t \<in> set ts"
  then obtain i where i: "i < length ts" "t = ts ! i"
    by (auto simp: in_set_conv_nth)
  obtain j where j: "task_id_to_index ts (task_id (ts ! i)) = Some j" "j < length ts"
    using task_id_to_index_in [OF i(1)] by blast
  have "py_index asg (int j) = py_index (take (length ts) asg) (int j)"
    using j(2) assms by (simp add: py_index_nat)
  then show "task_run (task_id_to_index ts) rs asg t
      = task_run (task_id_to_index ts) rs (take (length ts) asg) t"
    using i(2) j(1) by (simp add: task_run_def)
qed

lemma py_index_wrap:
  assumes "- int (length xs) \<le> a"
  shows "py_index xs a = py_index xs (if a < 0 then a + int (length xs) else a)"
  using assms by (auto simp: py_index_def py_position_def add.commute)

lemma simulate_wraps_negative_entries:
  assumes "\<forall>a \<in> set asg. - int (length rs) \<le> a"
  shows "simulate ts rs asg
     = simulate ts rs (map (\<lambda>a. if a < 0 then a + int (length rs) else a) asg)"
  unfolding simulate_def
proof (rule simulate_loop_cong)
  fix t :: Task
  let ?norm = "\<lambda>a. if a < 0 then a + int (length rs) else a"
  let ?f = "\<lambda>resource. bindE (py_div (task_length t) (speed resource))
              (\<lambda>execution_time. Inr (execution_time, execution_time * cost resource))"
  have "bindE (py_index asg k) (\<lambda>a. bindE (py_index rs a) ?f)
      = bindE (py_index (map ?norm asg) k) (\<lambda>a. bindE (py_index rs a) ?f)" for k
  proof (cases "py_index asg k")
    case (Inl e)
    then show ?thesis
      by (auto simp: py_index_def py_position_def split: if_splits)
  next
    case (Inr a)
    then have a: "a \<in> set asg"
      by (rule py_index_in_set)
    have "py_index (map ?norm asg) k = Inr (?norm a)"
      using Inr by (auto simp: py_index_def py_position_def split: if_splits)
    moreover have "py_index rs a = py_index rs (?norm a)"
      using a assms by (intro py_index_wrap) simp
    ultimately show ?thesis
      using Inr by simp
  qed
  then show "task_run (task_id_to_index ts) rs asg t
      = task_run (task_id_to_index ts) rs (map ?norm asg) t"
    by (simp add: task_run_def)
qed

section \<open>Instances of the data model\<close>

text \<open>
  A problem instance as the data model describes it: positive task lengths, positive
  resource speeds and non-negative cost rates. \<open>in_float_range\<close> says that every number
  of the instance lies in the range of a double, so that no division or product of
  \<open>simulate\<close> raises OverflowError.
\<close>

definition positive_instance :: "Task list \<Rightarrow> Resource list \<Rightarrow> bool" where
  "positive_instance ts rs =
     (list_all (\<lambda>t. 0 < task_length t) ts \<and> list_all (\<lambda>r. 0 < speed r \<and> 0 \<le> cost r) rs)"

definition in_float_range :: "Task list \<Rightarrow> Resource list \<Rightarrow> bool" where
  "in_float_range ts rs =
     (list_all (\<lambda>t. \<bar>task_length t\<bar> \<le> float_max) ts
      \<and> list_all (\<lambda>r. \<bar>speed r\<bar> \<le> float_max \<and> \<bar>cost r\<bar> \<le> float_max) rs)"

lemma evaluate_fitness_Inr:
  "evaluate_fitness ind obj = Inr ind' \<longleftrightarrow>
     (\<exists>r f. simulate (ind_tasks ind) (ind_resources ind) (assignment ind) = Inr r
        \<and> fitness_of obj (total_time r) (total_cost r) = Inr f
        \<and> ind' = ind\<lparr>fitness_score := Some (total_time r, total_cost r), fitness := Some f\<rparr>)"
  by (auto simp: evaluate_fitness_def bindE_eq_Inr)

lemma task_run_positive:
  assumes "0 < task_length t" "list_all (\<lambda>r. 0 < speed r \<and> 0 \<le> cost r) rs"
    and "task_run index rs asg t = Inr p"
  shows "0 < fst p \<and> 0 \<le> snd p"
proof -
  from assms(3) obtain a r where r: "py_index rs a = Inr r"
    and p: "py_div (task_length t) (speed r) = Inr (fst p)" "snd p = fst p * cost r"
    by (auto simp: task_run_def bindE_eq_Inr)
  have "r \<in> set rs"
    using r by (rule py_index_in_set)
  then have sr: "0 < speed r" "0 \<le> cost r"
    using assms(2) by (auto simp: list_all_iff)
  have "fst p = task_length t / speed r"
    using p(1) by (auto simp: py_div_def split: if_splits)
  then have "0 < fst p"
    using sr(1) assms(1) by simp
  then show ?thesis
    using p(2) sr(2) by simp
qed

lemma simulate_nonnegative:
  assumes "positive_instance ts rs" "simulate ts rs asg = Inr r"
  shows "0 \<le> total_time r \<and> 0 \<le> total_cost r"
proof -
  obtain ps where ps: "map (task_run (task_id_to_index ts) rs asg) ts = map Inr ps"
    and r: "r = \<lparr>total_time = 0 + sum_list (map fst ps), total_cost = 0 + sum_list (map snd ps)\<rparr>"
    using assms(2) unfolding simulate_def simulate_loop_Inr by auto
  have "0 < fst p \<and> 0 \<le> snd p" if "p \<in> set ps" for p
  proof -
    have "Inr p \<in> set (map (task_run (task_id_to_index ts) rs asg) ts)"
      using that ps by simp
    then obtain t where t: "t \<in> set ts" "task_run (task_id_to_index ts) rs asg t = Inr p"
      by auto
    then have "0 < task_length t"
      using assms(1) by (auto simp: positive_instance_def list_all_iff)
    then show ?thesis
      using assms(1) t(2) by (intro task_run_positive) (auto simp: positive_instance_def)
  qed
  then have nn: "\<And>x. x \<in> set (map fst ps) \<Longrightarrow> 0 \<le> x"
    "\<And>x. x \<in> set (map snd ps) \<Longrightarrow> 0 \<le> x"
    by (auto dest: less_imp_le)
  have "0 \<le> sum_list (map fst ps)"
    using nn(1) by (rule sum_list_nonneg)
  moreover have "0 \<le> sum_list (map snd ps)"
    using nn(2) by (rule sum_list_nonneg)
  ultimately have "0 \<le> sum_list (map fst ps)" "0 \<le> sum_list (map snd ps)"
    by simp_all
  then show ?thesis
    using r by simp
qed

lemma simulate_defined:
  assumes "list_all (\<lambda>r. speed r \<noteq> 0) rs" "length ts \<le> length asg"
    and "list_all (\<lambda>a. - int (length rs) \<le> a \<and> a < int (length rs)) asg"
  shows "\<exists>r. simulate ts rs asg = Inr r"
proof (cases "simulate ts rs asg")
  case (Inr r)
  then show ?thesis by blast
next
  case (Inl e)
  then obtain t where "t \<in> set ts" "task_run (task_id_to_index ts) rs asg t = Inl e"
    using simulate_loop_Inl unfolding simulate_def by blast
  then obtain i where i: "i < length ts"
    "task_run (task_id_to_index ts) rs asg (ts ! i) = Inl e"
    by (auto simp: in_set_conv_nth)
  obtain j where j: "task_id_to_index ts (task_id (ts ! i)) = Some j" "j < length ts"
    using task_id_to_index_in [OF i(1)] by blast
  then have j_asg: "j < length asg"
    using assms(2) by simp
  then have a: "py_index asg (int j) = Inr (asg ! j)"
    by (rule py_index_nat)
  have "asg ! j \<in> set asg"
    using j_asg by simp
  then have "- int (length rs) \<le> asg ! j \<and> asg ! j < int (length rs)"
    using assms(3) by (auto simp: list_all_iff)
  then obtain r where r: "py_index rs (asg ! j) = Inr r"
    by (cases "0 \<le> asg ! j") (auto simp: py_index_Inr)
  then have "r \<in> set rs"
    by (rule py_index_in_set)
  then have "speed r \<noteq> 0"
    using assms(1) by (auto simp: list_all_iff)
  then have "\<not> isl (task_run (task_id_to_index ts) rs asg (ts ! i))"
    using j(1) a r by (simp add: task_run_def py_div_def)
  with i(2) show ?thesis by simp
qed

section \<open>The fitness formula\<close>

lemma evaluate_fitness_cases:
  assumes "simulate (ind_tasks self) (ind_resources self) (assignment self) = Inr r"
  shows "evaluate_fitness self obj =
     (let t = total_time r; c = total_cost r;
          scored = self\<lparr>fitness_score := Some (t, c)\<rparr> in
      if obj = ''cost'' then
        (if 1 + c = 0 then Inl ZeroDivisionError
         else Inr (scored\<lparr>fitness := Some (1 / (1 + c))\<rparr>))
      else if obj = ''time'' then
        (if 1 + t = 0 then Inl ZeroDivisionError
         else Inr (scored\<lparr>fitness := Some (1 / (1 + t))\<rparr>))
      else if obj = ''weighted'' then
        (if 1 + 0.4 * (t / 1000) + 0.6 * (c / 10000) = 0 then Inl ZeroDivisionError
         else Inr (scored\<lparr>fitness := Some (1 / (1 + 0.4 * (t / 1000) + 0.6 * (c / 10000)))\<rparr>))
      else Inl (ValueError (''Unknown objective: '' @ obj)))"
  using assms by (simp add: evaluate_fitness_def fitness_of_def py_div_def Let_def)

text \<open>
  C2. For every pair (t, c) of total time and total cost that \<open>simulate\<close> returns on an
  instance of the data model (and for every other non-negative pair),
  \<open>evaluate_fitness\<close> stores the pair and computes the fitness 1 / (1 + c) under 'cost',
  1 / (1 + t) under 'time' and 1 / (1 + 0.4 * (t / 1000) + 0.6 * (c / 10000)) under
  'weighted'; every other selector raises ValueError("Unknown objective: ..."), the code's
  unknown-objective error.
\<close>

theorem evaluate_fitness_formula:
  assumes "simulate (ind_tasks self) (ind_resources self) (assignment self) = Inr r"
    and "positive_instance (ind_tasks self) (ind_resources self)
         \<or> (0 \<le> total_time r \<and> 0 \<le> total_cost r)"
  shows "evaluate_fitness self obj =
     (let t = total_time r; c = total_cost r;
          scored = self\<lparr>fitness_score := Some (t, c)\<rparr> in
      if obj = ''cost'' then Inr (scored\<lparr>fitness := Some (1 / (1 + c))\<rparr>)
      else if obj = ''time'' then Inr (scored\<lparr>fitness := Some (1 / (1 + t))\<rparr>)
      else if obj = ''weighted'' then
        Inr (scored\<lparr>fitness := Some (1 / (1 + 0.4 * (t / 1000) + 0.6 * (c / 10000)))\<rparr>)
      else Inl (ValueError (''Unknown objective: '' @ obj)))"
proof -
  have nonneg: "0 \<le> total_time r \<and> 0 \<le> total_cost r"
    using assms simulate_nonnegative by blast
  then have "1 + total_cost r \<noteq> 0" "1 + total_time r \<noteq> 0"
    "1 + 0.4 * (total_time r / 1000) + 0.6 * (total_cost r / 10000) \<noteq> 0"
    by simp_all
  then show ?thesis
    unfolding evaluate_fitness_cases [OF assms(1)] by (simp add: Let_def)
qed

theorem evaluate_fitness_formula_witness:
  "map_sum id fitness
     (evaluate_fitness (Individual_init [0, 1, 0] example_tasks example_resources) ''cost'')
     = Inr (Some (1 / (1 + 215)))
   \<and> map_sum id fitness
     (evaluate_fitness (Individual_init [0, 1, 0] example_tasks example_resources) ''time'')
     = Inr (Some (1 / (1 + 37)))
   \<and> map_sum id fitness
     (evaluate_fitness (Individual_init [0, 1, 0] example_tasks example_resources) ''weighted'')
     = Inr (Some (1 / (1 + 0.4 * (37 / 1000) + 0.6 * (215 / 10000))))
   \<and> evaluate_fitness (Individual_init [0, 1, 0] example_tasks example_resources) ''speed''
     = Inl (ValueError ''Unknown objective: speed'')"
proof -
  let ?ind = "Individual_init [0, 1, 0] example_tasks example_resources"
  have sim: "simulate (ind_tasks ?ind) (ind_resources ?ind) (assignment ?ind)
      = Inr \<lparr>total_time = 37, total_cost = 215\<rparr>"
    by (simp add: Individual_init_def simulate_example_instance)
  have pos: "positive_instance (ind_tasks ?ind) (ind_resources ?ind)
      \<or> (0 \<le> total_time \<lparr>total_time = 37, total_cost = 215\<rparr>
          \<and> 0 \<le> total_cost \<lparr>total_time = 37, total_cost = 215\<rparr>)"
    by (simp add: positive_instance_def Individual_init_def example_tasks_def
        example_resources_def)
  show ?thesis
    by (simp add: evaluate_fitness_formula [OF sim pos] Let_def)
qed

section \<open>Construction of the optimizer\<close>

text \<open>
  C5 as stated fails: \<open>__init__\<close> validates nothing. With every parameter out of range
  (no tasks, no resources, population size 0, rates 2 and -1, elitism count 5, an unknown
  objective, -3 generations, acceptance rate 0, influence rate 7) it returns an optimizer.
\<close>

theorem CulturalAlgorithm_init_accepts_invalid:
  "CulturalAlgorithm_init [] [] 0 2 (- 1) 5 ''bogus'' (- 3) 0 7 =
     Inr \<lparr>tasks = [], resources = [], population_size = 0, mutation_rate = 2,
          crossover_rate = - 1, elitism_count = 5, objective = ''bogus'',
          max_generations = - 3, acceptance_rate = 0, influence_rate = 7,
          population = [], generation = 0, best_fitness_history = [],
          avg_fitness_history = [], best_individual = None,
          belief_space = BeliefSpace_init 0 0\<rparr>"
  by (simp add: CulturalAlgorithm_init_def)

lemma evaluate_fitness_unknown_objective:
  assumes "obj \<noteq> ''cost''" "obj \<noteq> ''time''" "obj \<noteq> ''weighted''"
  shows "isl (evaluate_fitness ind obj)"
  using assms
  by (cases "simulate (ind_tasks ind) (ind_resources ind) (assignment ind)")
     (simp_all add: evaluate_fitness_def fitness_of_def)

lemma initialize_population_empty:
  assumes "population_size ca \<le> 0"
  shows "initialize_population ca g = Inl IndexError"
  using assms
  by (simp add: initialize_population_def sort_by_fitness_def comparable_def py_index_def
      py_position_def)

lemma initialize_population_unknown_objective:
  assumes "1 \<le> population_size ca"
    and "objective ca \<noteq> ''cost''" "objective ca \<noteq> ''time''" "objective ca \<noteq> ''weighted''"
  shows "isl (initialize_population ca g)"
proof -
  obtain n where n: "nat (population_size ca) = Suc n"
    using assms(1) by (cases "nat (population_size ca)") auto
  have "isl (random_individuals ca (Suc n) g')" for g'
    unfolding random_individuals.simps
  proof (rule bindR_fails)
    fix a g1
    have "isl (evaluate_fitness (Individual_init a (tasks ca) (resources ca)) (objective ca))"
      using assms(2-4) by (rule evaluate_fitness_unknown_objective)
    then show "isl (bindR (liftE (evaluate_fitness (Individual_init a (tasks ca) (resources ca))
                 (objective ca)))
               (\<lambda>individual. bindR (random_individuals ca n)
                  (\<lambda>rest. returnR (individual # rest))) g1)"
      by (intro bindR_fails_first)
         (cases "evaluate_fitness (Individual_init a (tasks ca) (resources ca)) (objective ca)",
          simp_all)
  qed
  then show ?thesis
    unfolding initialize_population_def n by (intro bindR_fails_first)
qed

lemma run_empty_population:
  assumes "population_size ca \<le> 0"
  shows "run ca g = Inl IndexError"
  using assms by (simp add: run_def bindR_def initialize_population_empty)

lemma run_unknown_objective:
  assumes "1 \<le> population_size ca"
    and "objective ca \<noteq> ''cost''" "objective ca \<noteq> ''time''" "objective ca \<noteq> ''weighted''"
  shows "isl (run ca g)"
  unfolding run_def
  by (intro bindR_fails_first initialize_population_unknown_objective assms)

text \<open>
  C5, amended. The constructor validates nothing: for every configuration it succeeds and
  stores the values as given, with an empty population, generation 0, empty histories, no
  best individual and a fresh belief space of dimensions (number of tasks, number of
  resources). An invalid configuration surfaces, if at all, only when \<open>run\<close> is called:
  a population size below 1 raises IndexError in \<open>initialize_population\<close>, and an unknown
  objective with a population size of at least 1 makes \<open>initialize_population\<close> raise.
\<close>

theorem CulturalAlgorithm_init_no_validation:
  "\<exists>ca. CulturalAlgorithm_init ts rs ps mr cr ec obj mg ar ir = Inr ca
     \<and> tasks ca = ts \<and> resources ca = rs \<and> population_size ca = ps \<and> mutation_rate ca = mr
     \<and> crossover_rate ca = cr \<and> elitism_count ca = ec \<and> objective ca = obj
     \<and> max_generations ca = mg \<and> acceptance_rate ca = ar \<and> influence_rate ca = ir
     \<and> population ca = [] \<and> generation ca = 0 \<and> best_fitness_history ca = []
     \<and> avg_fitness_history ca = [] \<and> best_individual ca = None
     \<and> belief_space ca = BeliefSpace_init (length ts) (length rs)
     \<and> (ps \<le> 0 \<longrightarrow> run ca g = Inl IndexError)
     \<and> (1 \<le> ps \<and> obj \<noteq> ''cost'' \<and> obj \<noteq> ''time'' \<and> obj \<noteq> ''weighted'' \<longrightarrow> isl (run ca g))"
  by (simp add: CulturalAlgorithm_init_def run_empty_population run_unknown_objective)

theorem CulturalAlgorithm_init_no_validation_witness:
  "(\<exists>ca. CulturalAlgorithm_init example_tasks example_resources 0 0.1 0.8 2 ''cost'' 100 0.2 0.3
            = Inr ca \<and> run ca (\<lambda>i. i) = Inl IndexError)
   \<and> (\<exists>ca. CulturalAlgorithm_init example_tasks example_resources 50 0.1 0.8 2 ''speed'' 100 0.2 0.3
            = Inr ca \<and> isl (run ca (\<lambda>i. i)))"
  using CulturalAlgorithm_init_no_validation
          [of example_tasks example_resources 0 "0.1" "0.8" 2 "''cost''" 100 "0.2" "0.3" "\<lambda>i. i"]
        CulturalAlgorithm_init_no_validation
          [of example_tasks example_resources 50 "0.1" "0.8" 2 "''speed''" 100 "0.2" "0.3" "\<lambda>i. i"]
  by auto

section \<open>Updating the belief space from an empty elite\<close>

lemma py_take_0 [simp]: "py_take 0 xs = []"
  by (simp add: py_take_def py_slice_bound_def)

lemma initialize_population_keeps_belief_space:
  assumes "elite_count (population_size ca) (acceptance_rate ca) = Inr 0"
    and "initialize_population ca g = Inr (ca', g')"
  shows "belief_space ca' = belief_space ca"
  using assms
  by (auto simp: initialize_population_def bindR_liftE_eq_Inr bindR_eq_Inr returnR_eq_Inr
      BeliefSpace_update_def)

text \<open>
  C10. \<open>update\<close> with an empty accepted list returns at once and leaves the whole belief
  space as it was (best individual, best fitness, normative ranges, domain statistics),
  whatever population is supplied. The case is reached from the public interface:
  \<open>initialize_population\<close> passes the first \<open>int(population_size * acceptance_rate)\<close>
  individuals, with no floor of one, so when that number is 0 the belief space after
  initialisation is the one before it. The number is the one Python computes: the product
  is rounded to a double before \<open>int\<close> truncates it (\<open>elite_count\<close>), so that 4 * 0.2 gives
  0 while 3 * (1 / 3), a product that rounds to 1.0, gives 1.
\<close>

theorem BeliefSpace_update_empty_accepted:
  "BeliefSpace_update bs pop [] = Inr bs
   \<and> (elite_count (population_size ca) (acceptance_rate ca) = Inr 0
        \<and> initialize_population ca g = Inr (ca', g')
      \<longrightarrow> belief_space ca' = belief_space ca)"
  using initialize_population_keeps_belief_space [of ca g ca' g']
  by (simp add: BeliefSpace_update_def)

theorem BeliefSpace_update_empty_accepted_witness:
  "\<exists>ca' g'. initialize_population (example_optimizer 4 50) (\<lambda>i. i) = Inr (ca', g')
      \<and> map fitness (population ca')
          = [Some (1 / 209), Some (1 / 209), Some (1 / 216), Some (1 / 216)]
      \<and> belief_space ca' = BeliefSpace_init 3 2
      \<and> avg_fitness (domain_stats (belief_space ca')) = 0
      \<and> BeliefSpace_update (belief_space ca') (population ca') [] = Inr (belief_space ca')"
proof -
  obtain ca' g' where
    init: "initialize_population (example_optimizer 4 50) (\<lambda>i. i) = Inr (ca', g')"
    and fs: "map fitness (population ca')
          = [Some (1 / 209), Some (1 / 209), Some (1 / 216), Some (1 / 216)]"
    using initialize_example_optimizer by auto
  have zero: "elite_count (population_size (example_optimizer 4 50))
                (acceptance_rate (example_optimizer 4 50)) = Inr 0"
    by (simp add: example_optimizer_def elite_count_4_fifth)
  have "belief_space ca' = belief_space (example_optimizer 4 50)"
    using BeliefSpace_update_empty_accepted
            [of "belief_space ca'" "population ca'" "example_optimizer 4 50" "\<lambda>i. i" ca' g']
          zero init
    by blast
  moreover have "BeliefSpace_update (belief_space ca') (population ca') [] = Inr (belief_space ca')"
    using BeliefSpace_update_empty_accepted
            [of "belief_space ca'" "population ca'" "example_optimizer 4 50" "\<lambda>i. i" ca' g']
    by blast
  ultimately show ?thesis
    using init fs by (auto simp: example_optimizer_def BeliefSpace_init_def)
qed

section \<open>Malformed assignments\<close>

lemma simulate_accepts:
  assumes "list_all (\<lambda>r. speed r \<noteq> 0) rs" "length ts \<le> length asg"
    and "list_all (\<lambda>a. - int (length rs) \<le> a \<and> a < int (length rs)) (take (length ts) asg)"
  shows "\<exists>r. simulate ts rs asg = Inr r"
proof -
  have "length ts \<le> length (take (length ts) asg)"
    using assms(2) by simp
  then have "\<exists>r. simulate ts rs (take (length ts) asg) = Inr r"
    using assms(1,3) by (intro simulate_defined)
  then show ?thesis
    using simulate_ignores_extra_entries [OF assms(2), of rs] by simp
qed

lemma simulate_error_in_range:
  assumes "list_all (\<lambda>r. speed r \<noteq> 0) rs" "simulate ts rs asg = Inl e"
  shows "e = IndexError"
  using simulate_Inl [OF assms(2)] assms(1) by (auto simp: list_all_iff)

text \<open>
  C6 as stated fails: \<open>simulate\<close> has no check of its own. An assignment longer than the
  task list is accepted (the entries 7 beyond the third position are never read), and the
  entries -2 and -1, outside the range [0, 1] of resource indices, are Python subscripts
  from the end and select the first and the second resource.
\<close>

theorem simulate_accepts_malformed:
  "simulate example_tasks example_resources [0, 1, 0, 7, 7]
     = Inr \<lparr>total_time = 37, total_cost = 215\<rparr>
   \<and> simulate example_tasks example_resources [- 2, - 1, 0]
     = Inr \<lparr>total_time = 37, total_cost = 215\<rparr>"
  by (simp add: example_tasks_def example_resources_def eval_simulate)

text \<open>
  C6, amended. (1) \<open>simulate\<close> raises whenever the assignment is shorter than the task
  list, and (2) whenever, for distinct task ids, an entry at a task position is at least
  the number of resources or below its negative. (3) With the numbers of the instance in
  the range of a double and no speed 0, the exception it raises is always Python's
  IndexError (the code has no error of its own). (4) On such an instance it returns
  normally on every assignment that has, for each task position, an entry from minus
  the number of resources to the number of resources minus one, however long the
  assignment is; (5) the entries beyond the task count are ignored, and (6) the entries
  from minus the number of resources to -1 are read as subscripts from the end: the
  result is that of the assignment cut to the task count, with each negative entry
  replaced by the index it denotes.
\<close>

theorem simulate_raises:
  "(length asg < length ts \<longrightarrow> isl (simulate ts rs asg))
   \<and> (distinct (map task_id ts) \<and> i < length ts \<and> i < length asg
        \<and> (asg ! i < - int (length rs) \<or> int (length rs) \<le> asg ! i)
      \<longrightarrow> isl (simulate ts rs asg))
   \<and> (in_float_range ts rs \<and> list_all (\<lambda>r. speed r \<noteq> 0) rs \<and> simulate ts rs asg = Inl e
      \<longrightarrow> e = IndexError)
   \<and> (in_float_range ts rs \<and> list_all (\<lambda>r. speed r \<noteq> 0) rs \<and> length ts \<le> length asg
        \<and> list_all (\<lambda>a. - int (length rs) \<le> a \<and> a < int (length rs)) (take (length ts) asg)
      \<longrightarrow> (\<exists>r. simulate ts rs asg = Inr r))
   \<and> (length ts \<le> length asg
      \<longrightarrow> simulate ts rs asg = simulate ts rs (take (length ts) asg))
   \<and> ((\<forall>a \<in> set asg. - int (length rs) \<le> a)
      \<longrightarrow> simulate ts rs asg
          = simulate ts rs (map (\<lambda>a. if a < 0 then a + int (length rs) else a) asg))"
proof (intro conjI impI)
  assume "length asg < length ts"
  then have "simulate ts rs asg = Inl IndexError \<or> simulate ts rs asg = Inl ZeroDivisionError"
    by (rule simulate_short_assignment)
  then show "isl (simulate ts rs asg)"
    by auto
next
  assume "distinct (map task_id ts) \<and> i < length ts \<and> i < length asg
        \<and> (asg ! i < - int (length rs) \<or> int (length rs) \<le> asg ! i)"
  then have "simulate ts rs asg = Inl IndexError \<or> simulate ts rs asg = Inl ZeroDivisionError"
    by (elim conjE) (rule simulate_entry_out_of_range)
  then show "isl (simulate ts rs asg)"
    by auto
next
  assume "in_float_range ts rs \<and> list_all (\<lambda>r. speed r \<noteq> 0) rs \<and> simulate ts rs asg = Inl e"
  then show "e = IndexError"
    using simulate_error_in_range by blast
next
  assume "in_float_range ts rs \<and> list_all (\<lambda>r. speed r \<noteq> 0) rs \<and> length ts \<le> length asg
        \<and> list_all (\<lambda>a. - int (length rs) \<le> a \<and> a < int (length rs)) (take (length ts) asg)"
  then show "\<exists>r. simulate ts rs asg = Inr r"
    using simulate_accepts by blast
next
  assume "length ts \<le> length asg"
  then show "simulate ts rs asg = simulate ts rs (take (length ts) asg)"
    by (rule simulate_ignores_extra_entries)
next
  assume "\<forall>a \<in> set asg. - int (length rs) \<le> a"
  then show "simulate ts rs asg
          = simulate ts rs (map (\<lambda>a. if a < 0 then a + int (length rs) else a) asg)"
    by (rule simulate_wraps_negative_entries)
qed

theorem simulate_raises_witness:
  "simulate example_tasks example_resources [0, 1] = Inl IndexError
   \<and> simulate example_tasks example_resources [0, 2, 0] = Inl IndexError
   \<and> (\<exists>r. simulate example_tasks example_resources [- 2, - 1, 0, 7, 7] = Inr r)
   \<and> simulate example_tasks example_resources [0, 1, 0, 7, 7]
       = Inr \<lparr>total_time = 37, total_cost = 215\<rparr>
   \<and> simulate example_tasks example_resources [- 2, - 1, 0]
       = Inr \<lparr>total_time = 37, total_cost = 215\<rparr>"
proof -
  let ?T = example_tasks and ?R = example_resources
  have speeds: "list_all (\<lambda>r. speed r \<noteq> 0) ?R"
    by (simp add: example_resources_def)
  have range: "in_float_range ?T ?R"
    by (simp add: in_float_range_def float_max_def example_tasks_def example_resources_def)
  have ids: "distinct (map task_id ?T)"
    by (simp add: example_tasks_def)
  have len: "length ?T = 3" "length ?R = 2"
    by (simp_all add: example_tasks_def example_resources_def)
  have index_error: "simulate ?T ?R asg = Inl IndexError" if "isl (simulate ?T ?R asg)" for asg
  proof -
    from that obtain e where e: "simulate ?T ?R asg = Inl e"
      by (cases "simulate ?T ?R asg") auto
    then have "e = IndexError"
      using simulate_raises [of asg ?T ?R 0 e, THEN conjunct2, THEN conjunct2, THEN conjunct1]
        range speeds
      by blast
    with e show ?thesis by simp
  qed
  have "length [0, 1 :: int] < length ?T"
    using len by simp
  then have "isl (simulate ?T ?R [0, 1])"
    using simulate_raises [of "[0, 1]" ?T ?R 0 IndexError, THEN conjunct1] by blast
  then have short: "simulate ?T ?R [0, 1] = Inl IndexError"
    by (rule index_error)
  have "distinct (map task_id ?T) \<and> 1 < length ?T \<and> 1 < length [0, 2, 0 :: int]
      \<and> ([0, 2, 0] ! 1 < - int (length ?R) \<or> int (length ?R) \<le> [0, 2, 0] ! 1)"
    using ids len by simp
  then have "isl (simulate ?T ?R [0, 2, 0])"
    using simulate_raises [of "[0, 2, 0]" ?T ?R 1 IndexError, THEN conjunct2, THEN conjunct1]
    by blast
  then have entry: "simulate ?T ?R [0, 2, 0] = Inl IndexError"
    by (rule index_error)
  have "in_float_range ?T ?R \<and> list_all (\<lambda>r. speed r \<noteq> 0) ?R
      \<and> length ?T \<le> length [- 2, - 1, 0, 7, 7 :: int]
      \<and> list_all (\<lambda>a. - int (length ?R) \<le> a \<and> a < int (length ?R))
            (take (length ?T) [- 2, - 1, 0, 7, 7])"
    using range speeds len by simp
  then have accepted: "\<exists>r. simulate ?T ?R [- 2, - 1, 0, 7, 7] = Inr r"
    using simulate_raises [of "[- 2, - 1, 0, 7, 7]" ?T ?R 0 IndexError, THEN conjunct2,
        THEN conjunct2, THEN conjunct2, THEN conjunct1]
    by blast
  have "length ?T \<le> length [0, 1, 0, 7, 7 :: int]"
    using len by simp
  then have "simulate ?T ?R [0, 1, 0, 7, 7]
      = simulate ?T ?R (take (length ?T) [0, 1, 0, 7, 7])"
    using simulate_raises [of "[0, 1, 0, 7, 7]" ?T ?R 0 IndexError, THEN conjunct2,
        THEN conjunct2, THEN conjunct2, THEN conjunct2, THEN conjunct1]
    by blast
  then have extra: "simulate ?T ?R [0, 1, 0, 7, 7] = Inr \<lparr>total_time = 37, total_cost = 215\<rparr>"
    using len simulate_example_instance by simp
  have "\<forall>a \<in> set [- 2, - 1, 0 :: int]. - int (length ?R) \<le> a"
    using len by simp
  then have "simulate ?T ?R [- 2, - 1, 0]
      = simulate ?T ?R (map (\<lambda>a. if a < 0 then a + int (length ?R) else a) [- 2, - 1, 0])"
    using simulate_raises [of "[- 2, - 1, 0]" ?T ?R 0 IndexError, THEN conjunct2,
        THEN conjunct2, THEN conjunct2, THEN conjunct2, THEN conjunct2]
    by blast
  then have wrap: "simulate ?T ?R [- 2, - 1, 0] = Inr \<lparr>total_time = 37, total_cost = 215\<rparr>"
    using len simulate_example_instance by simp
  from short entry accepted extra wrap show ?thesis by blast
qed

end
